theory Spec2Isabelle
  imports Complex_Main "HOL-Library.Sublist" "HOL-Library.Multiset"
begin

section \<open>Values, errors and the size record\<close>

text \<open>
  The lookups of \<^verbatim>\<open>inventory.py\<close> are embedded as HOL functions of the session
  (the provider, given as one response function per API operation), the clock reading
  and the call's parameters. A lookup returns \<open>Inl\<close> of the exception it raises or
  \<open>Inr\<close> of the value it returns.

  Numbers: the provider's integer fields are \<open>int\<close>; its float fields (metric
  statistics, the snapshot's backup size) are the exact rational value of a finite
  float, so \<open>int(x)\<close> is truncation toward zero and a product with a power of two is
  exact. Non-finite floats are not represented.
\<close>

type_synonym datetime = int
  \<comment> \<open>microseconds since the epoch\<close>

type_synonym timedelta = int
  \<comment> \<open>microseconds\<close>

datatype pynum = PyInt int | PyFloat rat

datatype exn =
    Exception string
  | ClientError string
  | IndexError

type_synonym client_error = string
  \<comment> \<open>an exception raised inside a provider call, as its \<^verbatim>\<open>str()\<close>\<close>

text \<open>
  \<open>Exception m\<close> is \<^verbatim>\<open>Exception(m)\<close> raised by the source itself,
  \<open>ClientError m\<close> an exception raised inside a provider call, with \<open>m\<close> its
  \<^verbatim>\<open>str()\<close>, and \<open>IndexError\<close> the failure of \<^verbatim>\<open>xs[0]\<close> on an empty list.
\<close>

fun str_exn :: "exn \<Rightarrow> string" where
  "str_exn (Exception m) = m"
| "str_exn (ClientError m) = m"
| "str_exn IndexError = ''list index out of range''"

record size_record =
  account_id :: string
  region_name :: string
  resource_key :: string
  size_bytes :: pynum

definition py_int :: "rat \<Rightarrow> int" where
  "py_int x = (if x < 0 then \<lceil>x\<rceil> else \<lfloor>x\<rfloor>)"

definition startswith :: "string \<Rightarrow> string \<Rightarrow> bool" where
  "startswith s p = prefix p s"

definition get_or_empty :: "'a list option \<Rightarrow> 'a list" where
  "get_or_empty v = (case v of None \<Rightarrow> [] | Some xs \<Rightarrow> xs)"

text \<open>
  \<^verbatim>\<open>sorted(xs, key=k, reverse=True)\<close>: a stable sort, and stable under
  \<^verbatim>\<open>reverse=True\<close> too (elements with equal keys keep their order), which is a
  stable ascending sort of the reversed list, reversed.
\<close>

definition sorted_reverse :: "('a \<Rightarrow> 'k::linorder) \<Rightarrow> 'a list \<Rightarrow> 'a list" where
  "sorted_reverse k xs = rev (sort_key k (rev xs))"

definition minutes :: "int \<Rightarrow> timedelta" where
  "minutes n = n * 60 * 1000000"

definition days :: "int \<Rightarrow> timedelta" where
  "days n = n * 24 * 60 * 60 * 1000000"

definition total_seconds :: "timedelta \<Rightarrow> rat" where
  "total_seconds d = Fract d 1000000"

section \<open>Provider responses and requests\<close>

text \<open>
  A response is typed by the shape the provider documents. A key the source reads with
  a subscript is a field; a key it reads with \<^verbatim>\<open>.get\<close> is an optional field.
\<close>

record ebs_device =
  ebs_VolumeId :: string

record block_device_mapping =
  Ebs :: ebs_device

record ec2_instance =
  BlockDeviceMappings :: "block_device_mapping list option"

record reservation =
  Instances :: "ec2_instance list option"

record describe_instances_response =
  Reservations :: "reservation list option"

record volume =
  VolumeId :: string
  Size :: int

record describe_volumes_response =
  Volumes :: "volume list option"

record db_cluster =
  Engine :: string
  cluster_AllocatedStorage :: int

record describe_db_clusters_response =
  DBClusters :: "db_cluster list"

record db_instance =
  instance_AllocatedStorage :: int

record describe_db_instances_response =
  DBInstances :: "db_instance list"

record file_system_size =
  Value :: int

record file_system =
  SizeInBytes :: file_system_size

record describe_file_systems_response =
  FileSystems :: "file_system list"

record table_description =
  TableSizeBytes :: int

record describe_table_response =
  Table :: table_description

record snapshot =
  SnapshotCreateTime :: datetime
  TotalBackupSizeInMegaBytes :: rat

record describe_cluster_snapshots_response =
  Snapshots :: "snapshot list"

record get_bucket_location_response =
  LocationConstraint :: "string option"

record dimension =
  dim_Name :: string
  dim_Value :: string

record metric =
  Dimensions :: "dimension list"

record list_metrics_page =
  Metrics :: "metric list"

text \<open>
  A datapoint carries the statistic its request asked for; each lookup reads only the
  one it requested (\<open>Maximum\<close> for the cluster metric, \<open>Average\<close> for the bucket
  metrics).
\<close>

record datapoint =
  Timestamp :: datetime
  Maximum :: rat
  Average :: rat

record get_metric_statistics_response =
  Datapoints :: "datapoint list"

record cluster_snapshots_request =
  cs_ClusterIdentifier :: string
  cs_StartTime :: datetime
  cs_SortingEntities :: "(string \<times> string) list"

record list_metrics_request =
  lm_Namespace :: string
  lm_MetricName :: string
  lm_Dimensions :: "dimension list"

record metric_statistics_request =
  ms_Namespace :: string
  ms_MetricName :: string
  ms_Dimensions :: "dimension list"
  ms_StartTime :: datetime
  ms_EndTime :: datetime
  ms_Statistics :: "string list"
  ms_Period :: int
  ms_Unit :: string

text \<open>
  The session: for each operation the source calls, the provider's answer to a request
  made by a client of the given region (the first argument). A call either raises or
  returns a response; what it raises is not an instance of the bare \<^verbatim>\<open>Exception\<close>
  class that the source raises itself, and reaches the caller as \<open>ClientError\<close>.
  The paginated metric listing is the sequence of its page fetches, consumed until the
  first one that raises.
\<close>

record session =
  ec2_describe_instances :: "string \<Rightarrow> string list \<Rightarrow> client_error + describe_instances_response"
  ec2_describe_volumes :: "string \<Rightarrow> string list \<Rightarrow> client_error + describe_volumes_response"
  rds_describe_db_clusters :: "string \<Rightarrow> string \<Rightarrow> client_error + describe_db_clusters_response"
  rds_describe_db_instances :: "string \<Rightarrow> string \<Rightarrow> client_error + describe_db_instances_response"
  efs_describe_file_systems :: "string \<Rightarrow> string \<Rightarrow> client_error + describe_file_systems_response"
  dynamodb_describe_table :: "string \<Rightarrow> string \<Rightarrow> client_error + describe_table_response"
  redshift_describe_cluster_snapshots ::
    "string \<Rightarrow> cluster_snapshots_request \<Rightarrow> client_error + describe_cluster_snapshots_response"
  s3_get_bucket_location :: "string \<Rightarrow> string \<Rightarrow> client_error + get_bucket_location_response"
  cloudwatch_list_metrics ::
    "string \<Rightarrow> list_metrics_request \<Rightarrow> (client_error + list_metrics_page) list"
  cloudwatch_get_metric_statistics ::
    "string \<Rightarrow> metric_statistics_request \<Rightarrow> client_error + get_metric_statistics_response"

section \<open>Compute-volume lookup\<close>

text \<open>The three nested loops of \<^verbatim>\<open>get_ec2_instance_size\<close> that fill \<^verbatim>\<open>volume_ids\<close>.\<close>

fun block_device_mappings_loop :: "block_device_mapping list \<Rightarrow> string list \<Rightarrow> string list" where
  "block_device_mappings_loop [] volume_ids = volume_ids"
| "block_device_mappings_loop (b # bs) volume_ids =
     block_device_mappings_loop bs (volume_ids @ [ebs_VolumeId (Ebs b)])"

fun instances_loop :: "ec2_instance list \<Rightarrow> string list \<Rightarrow> string list" where
  "instances_loop [] volume_ids = volume_ids"
| "instances_loop (i # insts) volume_ids =
     instances_loop insts
       (block_device_mappings_loop (get_or_empty (BlockDeviceMappings i)) volume_ids)"

fun reservations_loop :: "reservation list \<Rightarrow> string list \<Rightarrow> string list" where
  "reservations_loop [] volume_ids = volume_ids"
| "reservations_loop (r # rs) volume_ids =
     reservations_loop rs (instances_loop (get_or_empty (Instances r)) volume_ids)"

definition attached_volume_ids :: "describe_instances_response \<Rightarrow> string list" where
  "attached_volume_ids response = reservations_loop (get_or_empty (Reservations response)) []"

text \<open>The loop over the described volumes.\<close>

fun volumes_loop ::
  "string \<Rightarrow> string \<Rightarrow> string \<Rightarrow> volume list \<Rightarrow> size_record list \<Rightarrow> size_record list" where
  "volumes_loop account region instance_id [] volumes = volumes"
| "volumes_loop account region instance_id (v # vs) volumes =
     volumes_loop account region instance_id vs
       (volumes @
        [\<lparr>account_id = account, region_name = region,
          resource_key = instance_id @ ''::'' @ VolumeId v,
          size_bytes = PyInt (Size v * 1024 * 1024 * 1024)\<rparr>])"

definition get_ec2_instance_size ::
  "session \<Rightarrow> string \<Rightarrow> string \<Rightarrow> string \<Rightarrow> exn + size_record list" where
  "get_ec2_instance_size s account region instance_id =
     (case ec2_describe_instances s region [instance_id] of
        Inl m \<Rightarrow> Inl (ClientError m)
      | Inr response \<Rightarrow>
          (let volume_ids = attached_volume_ids response in
           case ec2_describe_volumes s region volume_ids of
             Inl m \<Rightarrow> Inl (ClientError m)
           | Inr response' \<Rightarrow>
               Inr (volumes_loop account region instance_id
                      (get_or_empty (Volumes response')) [])))"

section \<open>Relational-cluster and relational-instance lookups\<close>

definition get_rds_cluster_size ::
  "session \<Rightarrow> datetime \<Rightarrow> string \<Rightarrow> string \<Rightarrow> string \<Rightarrow> exn + size_record" where
  "get_rds_cluster_size s now account region db_cluster_identifier =
     (case rds_describe_db_clusters s region db_cluster_identifier of
        Inl m \<Rightarrow> Inl (ClientError m)
      | Inr response \<Rightarrow>
          (case DBClusters response of
             [] \<Rightarrow> Inl (Exception (''DB Cluster '' @ db_cluster_identifier @ '' was not found''))
           | cluster # _ \<Rightarrow>
               (let engine = Engine cluster in
                if \<not> startswith engine ''aurora-'' then
                  Inr \<lparr>account_id = account, region_name = region,
                       resource_key = db_cluster_identifier,
                       size_bytes = PyInt (cluster_AllocatedStorage cluster * 1024 * 1024 * 1024)\<rparr>
                else
                  (let period = minutes 30;
                       end_time = now;
                       start_time = end_time - period
                   in case cloudwatch_get_metric_statistics s region
                        \<lparr>ms_Namespace = ''AWS/RDS'',
                         ms_MetricName = ''VolumeBytesUsed'',
                         ms_Dimensions =
                           [\<lparr>dim_Name = ''DBClusterIdentifier'',
                             dim_Value = db_cluster_identifier\<rparr>],
                         ms_StartTime = start_time,
                         ms_EndTime = end_time,
                         ms_Statistics = [''Maximum''],
                         ms_Period = py_int (total_seconds period),
                         ms_Unit = ''Bytes''\<rparr> of
                        Inl m \<Rightarrow> Inl (ClientError m)
                      | Inr response' \<Rightarrow>
                          (if Datapoints response' = [] then
                             Inl (Exception
                                   (''The VolumeBytesUsed metric was not found for DB cluster '' @
                                    db_cluster_identifier))
                           else
                             (case sorted_reverse Timestamp (Datapoints response') of
                                [] \<Rightarrow> Inl IndexError
                              | d # _ \<Rightarrow>
                                  Inr \<lparr>account_id = account, region_name = region,
                                       resource_key = db_cluster_identifier,
                                       size_bytes = PyInt (py_int (Maximum d))\<rparr>))))))"

definition get_rds_instance_size ::
  "session \<Rightarrow> string \<Rightarrow> string \<Rightarrow> string \<Rightarrow> exn + size_record" where
  "get_rds_instance_size s account region db_instance_identifier =
     (case rds_describe_db_instances s region db_instance_identifier of
        Inl m \<Rightarrow> Inl (ClientError m)
      | Inr response \<Rightarrow>
          (case DBInstances response of
             [] \<Rightarrow> Inl (Exception (''DB Instance '' @ db_instance_identifier @ '' was not found''))
           | inst # _ \<Rightarrow>
               Inr \<lparr>account_id = account, region_name = region,
                    resource_key = db_instance_identifier,
                    size_bytes = PyInt (instance_AllocatedStorage inst * 1024 * 1024 * 1024)\<rparr>))"

section \<open>File-system and key-value table lookups\<close>

definition get_efs_file_system_size ::
  "session \<Rightarrow> string \<Rightarrow> string \<Rightarrow> string \<Rightarrow> exn + size_record" where
  "get_efs_file_system_size s account region file_system_id =
     (case efs_describe_file_systems s region file_system_id of
        Inl m \<Rightarrow> Inl (ClientError m)
      | Inr response \<Rightarrow>
          (case FileSystems response of
             [] \<Rightarrow> Inl (Exception (''File system '' @ file_system_id @ '' in region '' @ region @
                                    '' could not be found''))
           | fs # _ \<Rightarrow>
               (let file_system_size = Value (SizeInBytes fs) in
                Inr \<lparr>account_id = account, region_name = region,
                     resource_key = file_system_id,
                     size_bytes = PyInt file_system_size\<rparr>)))"

definition get_dynamodb_table_size ::
  "session \<Rightarrow> string \<Rightarrow> string \<Rightarrow> string \<Rightarrow> exn + size_record" where
  "get_dynamodb_table_size s account region table_name =
     (case dynamodb_describe_table s region table_name of
        Inl m \<Rightarrow> Inl (ClientError m)
      | Inr response \<Rightarrow>
          (let table = Table response in
           Inr \<lparr>account_id = account, region_name = region,
                resource_key = table_name,
                size_bytes = PyInt (TableSizeBytes table)\<rparr>))"

section \<open>Data-warehouse lookup\<close>

definition get_redshift_cluster_size ::
  "session \<Rightarrow> datetime \<Rightarrow> string \<Rightarrow> string \<Rightarrow> string \<Rightarrow> exn + size_record" where
  "get_redshift_cluster_size s now account region cluster_identifier =
     (let start_time = now - days 7 in
      case redshift_describe_cluster_snapshots s region
             \<lparr>cs_ClusterIdentifier = cluster_identifier,
              cs_StartTime = start_time,
              cs_SortingEntities = [(''CREATE_TIME'', ''DESC'')]\<rparr> of
        Inl m \<Rightarrow> Inl (ClientError m)
      | Inr response \<Rightarrow>
          (let snapshots = sorted_reverse SnapshotCreateTime (Snapshots response) in
           case snapshots of
             [] \<Rightarrow> Inl (Exception (''Cluster '' @ cluster_identifier @
                                    '' does not have any snapshots in the last seven days''))
           | last_snapshot # _ \<Rightarrow>
               Inr \<lparr>account_id = account, region_name = region,
                    resource_key = cluster_identifier,
                    size_bytes =
                      PyFloat (TotalBackupSizeInMegaBytes last_snapshot * 1024 * 1024)\<rparr>))"

section \<open>Object-storage lookup\<close>

text \<open>
  \<^verbatim>\<open>get_bucket_size\<close> is embedded together with the sequence of provider calls it
  makes, in the order it makes them: the result is the pair of that sequence and of the
  exception raised or the records returned.
\<close>

datatype api_call =
    GetBucketLocation string string
  | ListMetrics string list_metrics_request
  | GetMetricStatistics string metric_statistics_request

definition backup_storage_types :: "string list" where
  "backup_storage_types =
     [''StandardStorage'',
      ''StandardIAStorage'',
      ''OneZoneIAStorage'',
      ''GlacierInstantRetrievalStorage'',
      ''IntelligentTieringFAStorage'',
      ''IntelligentTieringIAStorage'',
      ''IntelligentTieringAAStorage'',
      ''IntelligentTieringAIAStorage'',
      ''IntelligentTieringDAAStorage'']"

definition other_storage_types :: "string list" where
  "other_storage_types =
     [''StandardIASizeOverhead'',
      ''StandardIAObjectOverhead'',
      ''OneZoneIASizeOverhead'',
      ''ReducedRedundancyStorage'',
      ''GlacierInstantRetrievalSizeOverhead'',
      ''GlacierInstantRetrievalStorage'',
      ''GlacierStorage'',
      ''GlacierStagingStorage'',
      ''GlacierObjectOverhead'',
      ''GlacierS3ObjectOverhead'',
      ''DeepArchiveStorage'',
      ''DeepArchiveObjectOverhead'',
      ''DeepArchiveS3ObjectOverhead'',
      ''DeepArchiveStagingStorage'']"

text \<open>\<^verbatim>\<open>response.get('LocationConstraint') or 'us-east-1'\<close>: absent, \<^verbatim>\<open>None\<close> and
  the empty string all give the default.\<close>

definition location_constraint :: "get_bucket_location_response \<Rightarrow> string" where
  "location_constraint response =
     (case LocationConstraint response of
        None \<Rightarrow> ''us-east-1''
      | Some l \<Rightarrow> if l = [] then ''us-east-1'' else l)"

text \<open>The \<^verbatim>\<open>try\<close> block and its \<^verbatim>\<open>except Exception\<close> handler.\<close>

definition bucket_validation :: "session \<Rightarrow> string \<Rightarrow> string \<Rightarrow> exn + unit" where
  "bucket_validation s region bucket_name =
     (case
        (case s3_get_bucket_location s region bucket_name of
           Inl m \<Rightarrow> Inl (ClientError m)
         | Inr response \<Rightarrow>
             (if location_constraint response \<noteq> region then
                Inl (Exception (''Bucket '' @ bucket_name @ '' is not in Region '' @ region))
              else Inr ()))
      of
        Inl exc \<Rightarrow>
          Inl (Exception
                (''Bucket '' @ bucket_name @ '' was not found in Region '' @ region @
                 '' or credentials are invalid. Inner exception '' @ str_exn exc))
      | Inr u \<Rightarrow> Inr u)"

text \<open>
  The loops over the listing's pages and over the metrics of a page.
  \<open>storage_type_values\<close> is the list comprehension whose element 0 the source takes.
\<close>

definition storage_type_values :: "metric \<Rightarrow> string list" where
  "storage_type_values m = [dim_Value d. d \<leftarrow> Dimensions m, dim_Name d = ''StorageType'']"

fun metrics_loop ::
  "metric list \<Rightarrow> (string \<times> dimension list) list \<Rightarrow> exn + (string \<times> dimension list) list" where
  "metrics_loop [] metric_dimensions = Inr metric_dimensions"
| "metrics_loop (m # ms) metric_dimensions =
     (case storage_type_values m of
        [] \<Rightarrow> Inl IndexError
      | storage_type # _ \<Rightarrow>
          metrics_loop ms (metric_dimensions @ [(storage_type, Dimensions m)]))"

fun pages_loop ::
  "string \<Rightarrow> list_metrics_request \<Rightarrow> (client_error + list_metrics_page) list \<Rightarrow> api_call list \<Rightarrow>
   (string \<times> dimension list) list \<Rightarrow>
   api_call list \<times> (exn + (string \<times> dimension list) list)" where
  "pages_loop region request [] calls metric_dimensions = (calls, Inr metric_dimensions)"
| "pages_loop region request (Inl m # _) calls metric_dimensions =
     (calls @ [ListMetrics region request], Inl (ClientError m))"
| "pages_loop region request (Inr page # pages) calls metric_dimensions =
     (case metrics_loop (Metrics page) metric_dimensions of
        Inl e \<Rightarrow> (calls @ [ListMetrics region request], Inl e)
      | Inr metric_dimensions' \<Rightarrow>
          pages_loop region request pages (calls @ [ListMetrics region request])
            metric_dimensions')"

text \<open>The loop over \<^verbatim>\<open>metric_dimensions\<close> that queries the statistics.\<close>

definition bucket_statistics_request ::
  "dimension list \<Rightarrow> datetime \<Rightarrow> datetime \<Rightarrow> timedelta \<Rightarrow> metric_statistics_request" where
  "bucket_statistics_request dimensions start_time end_time period =
     \<lparr>ms_Namespace = ''AWS/S3'',
      ms_MetricName = ''BucketSizeBytes'',
      ms_Dimensions = dimensions,
      ms_StartTime = start_time,
      ms_EndTime = end_time,
      ms_Statistics = [''Average''],
      ms_Period = py_int (total_seconds period),
      ms_Unit = ''Bytes''\<rparr>"

fun statistics_loop ::
  "session \<Rightarrow> string \<Rightarrow> string \<Rightarrow> string \<Rightarrow> datetime \<Rightarrow> datetime \<Rightarrow> timedelta \<Rightarrow>
   (string \<times> dimension list) list \<Rightarrow> api_call list \<Rightarrow> size_record list \<Rightarrow>
   api_call list \<times> (exn + size_record list)" where
  "statistics_loop s account region bucket_name start_time end_time period [] calls metric_data =
     (calls, Inr metric_data)"
| "statistics_loop s account region bucket_name start_time end_time period
     ((storage_type, dimensions) # rest) calls metric_data =
     (let request = bucket_statistics_request dimensions start_time end_time period;
          calls' = calls @ [GetMetricStatistics region request]
      in case cloudwatch_get_metric_statistics s region request of
           Inl m \<Rightarrow> (calls', Inl (ClientError m))
         | Inr response \<Rightarrow>
             if storage_type \<in> set backup_storage_types then
               (case Datapoints response of
                  [] \<Rightarrow> (calls', Inl IndexError)
                | d # _ \<Rightarrow>
                    statistics_loop s account region bucket_name start_time end_time period rest
                      calls'
                      (metric_data @
                       [\<lparr>account_id = account, region_name = region,
                         resource_key = bucket_name @ ''::'' @ storage_type,
                         size_bytes = PyFloat (Average d)\<rparr>]))
             else
               statistics_loop s account region bucket_name start_time end_time period rest
                 calls' metric_data)"

definition bucket_metrics_request :: "string \<Rightarrow> list_metrics_request" where
  "bucket_metrics_request bucket_name =
     \<lparr>lm_Namespace = ''AWS/S3'',
      lm_MetricName = ''BucketSizeBytes'',
      lm_Dimensions = [\<lparr>dim_Name = ''BucketName'', dim_Value = bucket_name\<rparr>]\<rparr>"

definition get_bucket_size ::
  "session \<Rightarrow> datetime \<Rightarrow> string \<Rightarrow> string \<Rightarrow> string \<Rightarrow>
   api_call list \<times> (exn + size_record list)" where
  "get_bucket_size s now account region bucket_name =
     (case bucket_validation s region bucket_name of
        Inl e \<Rightarrow> ([GetBucketLocation region bucket_name], Inl e)
      | Inr _ \<Rightarrow>
          (case pages_loop region (bucket_metrics_request bucket_name)
                  (cloudwatch_list_metrics s region (bucket_metrics_request bucket_name))
                  [GetBucketLocation region bucket_name] [] of
             (calls, Inl e) \<Rightarrow> (calls, Inl e)
           | (calls, Inr metric_dimensions) \<Rightarrow>
               (let period = days 2;
                    end_time = now;
                    start_time = end_time - period
                in statistics_loop s account region bucket_name start_time end_time period
                     metric_dimensions calls [])))"

section \<open>Sample sessions\<close>

text \<open>A session whose every call raises; the samples below override single operations.\<close>

definition offline_session :: session where
  "offline_session =
     \<lparr>ec2_describe_instances = (\<lambda>_ _. Inl ''offline''),
      ec2_describe_volumes = (\<lambda>_ _. Inl ''offline''),
      rds_describe_db_clusters = (\<lambda>_ _. Inl ''offline''),
      rds_describe_db_instances = (\<lambda>_ _. Inl ''offline''),
      efs_describe_file_systems = (\<lambda>_ _. Inl ''offline''),
      dynamodb_describe_table = (\<lambda>_ _. Inl ''offline''),
      redshift_describe_cluster_snapshots = (\<lambda>_ _. Inl ''offline''),
      s3_get_bucket_location = (\<lambda>_ _. Inl ''offline''),
      cloudwatch_list_metrics = (\<lambda>_ _. [Inl ''offline'']),
      cloudwatch_get_metric_statistics = (\<lambda>_ _. Inl ''offline'')\<rparr>"

text \<open>Instance \<open>i-1\<close> with the volumes \<open>vol-a\<close> (20 GiB) and \<open>vol-b\<close> (100 GiB) attached.\<close>

definition two_volume_instances :: describe_instances_response where
  "two_volume_instances =
     \<lparr>Reservations = Some
        [\<lparr>Instances = Some
           [\<lparr>BlockDeviceMappings = Some
              [\<lparr>Ebs = \<lparr>ebs_VolumeId = ''vol-a''\<rparr>\<rparr>,
               \<lparr>Ebs = \<lparr>ebs_VolumeId = ''vol-b''\<rparr>\<rparr>]\<rparr>]\<rparr>]\<rparr>"

definition two_volumes :: "volume list" where
  "two_volumes = [\<lparr>VolumeId = ''vol-a'', Size = 20\<rparr>, \<lparr>VolumeId = ''vol-b'', Size = 100\<rparr>]"

definition two_volume_session :: session where
  "two_volume_session =
     offline_session
       \<lparr>ec2_describe_instances := (\<lambda>_ _. Inr two_volume_instances),
        ec2_describe_volumes := (\<lambda>_ _. Inr \<lparr>Volumes = Some two_volumes\<rparr>)\<rparr>"

definition aurora_datapoints :: "datapoint list" where
  "aurora_datapoints =
     [\<lparr>Timestamp = 100, Maximum = 5, Average = 0\<rparr>,
      \<lparr>Timestamp = 300, Maximum = 15 / 2, Average = 0\<rparr>,
      \<lparr>Timestamp = 200, Maximum = 9, Average = 0\<rparr>]"

definition aurora_session :: session where
  "aurora_session =
     offline_session
       \<lparr>rds_describe_db_clusters :=
          (\<lambda>_ _. Inr \<lparr>DBClusters =
             [\<lparr>Engine = ''aurora-postgresql'', cluster_AllocatedStorage = 1\<rparr>]\<rparr>),
        cloudwatch_get_metric_statistics :=
          (\<lambda>_ _. Inr \<lparr>Datapoints = aurora_datapoints\<rparr>)\<rparr>"

definition aurora_silent_session :: session where
  "aurora_silent_session =
     aurora_session\<lparr>cloudwatch_get_metric_statistics := (\<lambda>_ _. Inr \<lparr>Datapoints = []\<rparr>)\<rparr>"

definition no_cluster_session :: session where
  "no_cluster_session =
     offline_session\<lparr>rds_describe_db_clusters := (\<lambda>_ _. Inr \<lparr>DBClusters = []\<rparr>)\<rparr>"

definition unsorted_snapshots :: "snapshot list" where
  "unsorted_snapshots =
     [\<lparr>SnapshotCreateTime = 10, TotalBackupSizeInMegaBytes = 1\<rparr>,
      \<lparr>SnapshotCreateTime = 30, TotalBackupSizeInMegaBytes = 5 / 2\<rparr>,
      \<lparr>SnapshotCreateTime = 20, TotalBackupSizeInMegaBytes = 4\<rparr>]"

definition snapshot_session :: session where
  "snapshot_session =
     offline_session
       \<lparr>redshift_describe_cluster_snapshots := (\<lambda>_ _. Inr \<lparr>Snapshots = unsorted_snapshots\<rparr>)\<rparr>"

definition no_snapshot_session :: session where
  "no_snapshot_session =
     offline_session\<lparr>redshift_describe_cluster_snapshots := (\<lambda>_ _. Inr \<lparr>Snapshots = []\<rparr>)\<rparr>"

definition default_region_session :: session where
  "default_region_session =
     offline_session\<lparr>s3_get_bucket_location := (\<lambda>_ _. Inr \<lparr>LocationConstraint = None\<rparr>)\<rparr>"

definition ireland_session :: session where
  "ireland_session =
     offline_session
       \<lparr>s3_get_bucket_location := (\<lambda>_ _. Inr \<lparr>LocationConstraint = Some ''eu-west-1''\<rparr>)\<rparr>"

definition bucket_dimensions :: "string \<Rightarrow> dimension list" where
  "bucket_dimensions storage_type =
     [\<lparr>dim_Name = ''BucketName'', dim_Value = ''b1''\<rparr>,
      \<lparr>dim_Name = ''StorageType'', dim_Value = storage_type\<rparr>]"

definition bucket_pages :: "list_metrics_page list" where
  "bucket_pages =
     [\<lparr>Metrics = [\<lparr>Dimensions = bucket_dimensions ''StandardStorage''\<rparr>,
                  \<lparr>Dimensions = bucket_dimensions ''GlacierStorage''\<rparr>]\<rparr>,
      \<lparr>Metrics = [\<lparr>Dimensions = bucket_dimensions ''StandardIAStorage''\<rparr>]\<rparr>]"

definition bucket_answer :: "dimension list \<Rightarrow> get_metric_statistics_response" where
  "bucket_answer dimensions =
     (if dimensions = bucket_dimensions ''StandardStorage'' then
        \<lparr>Datapoints = [\<lparr>Timestamp = 200, Maximum = 0, Average = 2001 / 2\<rparr>,
                       \<lparr>Timestamp = 100, Maximum = 0, Average = 7\<rparr>]\<rparr>
      else if dimensions = bucket_dimensions ''StandardIAStorage'' then
        \<lparr>Datapoints = [\<lparr>Timestamp = 100, Maximum = 0, Average = 2048\<rparr>]\<rparr>
      else \<lparr>Datapoints = []\<rparr>)"

text \<open>
  A session that answers only the requests of a lookup of bucket \<open>b1\<close> in
  \<open>us-east-1\<close>: the listing of its \<open>BucketSizeBytes\<close> metrics, and the averages
  over a window of two days with a period of 172800 seconds.
\<close>

definition bucket_listing_request :: "string \<Rightarrow> list_metrics_request \<Rightarrow> bool" where
  "bucket_listing_request region request =
     (region = ''us-east-1'' \<and>
      request =
        \<lparr>lm_Namespace = ''AWS/S3'', lm_MetricName = ''BucketSizeBytes'',
         lm_Dimensions = [\<lparr>dim_Name = ''BucketName'', dim_Value = ''b1''\<rparr>]\<rparr>)"

definition bucket_average_request :: "string \<Rightarrow> metric_statistics_request \<Rightarrow> bool" where
  "bucket_average_request region request =
     (region = ''us-east-1'' \<and>
      ms_Namespace request = ''AWS/S3'' \<and>
      ms_MetricName request = ''BucketSizeBytes'' \<and>
      ms_EndTime request - ms_StartTime request = 172800000000 \<and>
      ms_Statistics request = [''Average''] \<and>
      ms_Period request = 172800 \<and>
      ms_Unit request = ''Bytes'')"

definition bucket_session :: session where
  "bucket_session =
     offline_session
       \<lparr>s3_get_bucket_location :=
          (\<lambda>region bucket.
             if bucket = ''b1'' then Inr \<lparr>LocationConstraint = None\<rparr>
             else Inl ''NoSuchBucket''),
        cloudwatch_list_metrics :=
          (\<lambda>region request.
             if bucket_listing_request region request then map Inr bucket_pages
             else [Inl ''InvalidParameterValue'']),
        cloudwatch_get_metric_statistics :=
          (\<lambda>region request.
             if bucket_average_request region request
             then Inr (bucket_answer (ms_Dimensions request))
             else Inl ''InvalidParameterValue'')\<rparr>"

definition bucket_gap_session :: session where
  "bucket_gap_session =
     bucket_session
       \<lparr>cloudwatch_get_metric_statistics :=
          (\<lambda>_ request.
             Inr (if ms_Dimensions request = bucket_dimensions ''StandardIAStorage''
                  then \<lparr>Datapoints = []\<rparr> else bucket_answer (ms_Dimensions request)))\<rparr>"

definition glacier_session :: session where
  "glacier_session =
     bucket_session
       \<lparr>cloudwatch_list_metrics :=
          (\<lambda>region request.
             if bucket_listing_request region request
             then [Inr \<lparr>Metrics = [\<lparr>Dimensions = bucket_dimensions ''GlacierStorage''\<rparr>]\<rparr>]
             else [Inl ''InvalidParameterValue''])\<rparr>"

definition storage_session :: session where
  "storage_session =
     offline_session
       \<lparr>rds_describe_db_clusters :=
          (\<lambda>_ _. Inr \<lparr>DBClusters = [\<lparr>Engine = ''postgres'', cluster_AllocatedStorage = 50\<rparr>]\<rparr>),
        rds_describe_db_instances :=
          (\<lambda>_ _. Inr \<lparr>DBInstances = [\<lparr>instance_AllocatedStorage = 20\<rparr>]\<rparr>),
        efs_describe_file_systems :=
          (\<lambda>_ _. Inr \<lparr>FileSystems = [\<lparr>SizeInBytes = \<lparr>Value = 6144\<rparr>\<rparr>]\<rparr>),
        dynamodb_describe_table :=
          (\<lambda>_ _. Inr \<lparr>Table = \<lparr>TableSizeBytes = 4096\<rparr>\<rparr>)\<rparr>"

definition spread_instances :: describe_instances_response where
  "spread_instances =
     \<lparr>Reservations = Some
        [\<lparr>Instances = Some
           [\<lparr>BlockDeviceMappings = Some [\<lparr>Ebs = \<lparr>ebs_VolumeId = ''vol-x''\<rparr>\<rparr>]\<rparr>]\<rparr>,
         \<lparr>Instances = None\<rparr>,
         \<lparr>Instances = Some
           [\<lparr>BlockDeviceMappings = None\<rparr>,
            \<lparr>BlockDeviceMappings = Some
               [\<lparr>Ebs = \<lparr>ebs_VolumeId = ''vol-y''\<rparr>\<rparr>,
                \<lparr>Ebs = \<lparr>ebs_VolumeId = ''vol-z''\<rparr>\<rparr>]\<rparr>]\<rparr>]\<rparr>"

definition spread_volumes :: "volume list" where
  "spread_volumes =
     [\<lparr>VolumeId = ''vol-z'', Size = 8\<rparr>,
      \<lparr>VolumeId = ''vol-x'', Size = 30\<rparr>,
      \<lparr>VolumeId = ''vol-y'', Size = 500\<rparr>]"

definition spread_volume_session :: session where
  "spread_volume_session =
     offline_session
       \<lparr>ec2_describe_instances :=
          (\<lambda>region ids.
             if region = ''eu-west-1'' \<and> ids = [''i-2''] then Inr spread_instances
             else Inl ''InvalidInstanceID.NotFound''),
        ec2_describe_volumes :=
          (\<lambda>region ids.
             if region = ''eu-west-1'' \<and> ids = [''vol-x'', ''vol-y'', ''vol-z'']
             then Inr \<lparr>Volumes = Some spread_volumes\<rparr>
             else Inl ''InvalidVolume.NotFound'')\<rparr>"

definition bucket_void_session :: session where
  "bucket_void_session =
     bucket_session
       \<lparr>cloudwatch_get_metric_statistics :=
          (\<lambda>region request.
             if bucket_average_request region request then Inr \<lparr>Datapoints = []\<rparr>
             else Inl ''InvalidParameterValue'')\<rparr>"

definition bucket_twin_session :: session where
  "bucket_twin_session =
     bucket_session
       \<lparr>cloudwatch_list_metrics :=
          (\<lambda>region request.
             if bucket_listing_request region request
             then [Inr \<lparr>Metrics = [\<lparr>Dimensions = bucket_dimensions ''StandardStorage''\<rparr>,
                                   \<lparr>Dimensions = bucket_dimensions ''StandardStorage''\<rparr>]\<rparr>]
             else [Inl ''InvalidParameterValue''])\<rparr>"

section \<open>Properties of the compute-volume lookup\<close>

lemma volumes_loop_map:
  "volumes_loop account region instance_id vs acc =
     acc @ map (\<lambda>v. \<lparr>account_id = account, region_name = region,
                      resource_key = instance_id @ ''::'' @ VolumeId v,
                      size_bytes = PyInt (Size v * 1024 ^ 3)\<rparr>) vs"
  by (induction vs arbitrary: acc) simp_all

lemma get_ec2_instance_size_eq:
  assumes "ec2_describe_instances s region [instance_id] = Inr iresp"
    and "ec2_describe_volumes s region (attached_volume_ids iresp) = Inr vresp"
  shows "get_ec2_instance_size s account region instance_id =
           Inr (map (\<lambda>v. \<lparr>account_id = account, region_name = region,
                           resource_key = instance_id @ ''::'' @ VolumeId v,
                           size_bytes = PyInt (Size v * 1024 ^ 3)\<rparr>)
                  (get_or_empty (Volumes vresp)))"
  using assms by (simp add: get_ec2_instance_size_def volumes_loop_map)

lemma block_device_mappings_loop_eq:
  "block_device_mappings_loop bs acc = acc @ map (\<lambda>b. ebs_VolumeId (Ebs b)) bs"
  by (induction bs arbitrary: acc) simp_all

lemma instances_loop_eq:
  "instances_loop insts acc =
     acc @ concat (map (\<lambda>i. map (\<lambda>b. ebs_VolumeId (Ebs b))
                          (case BlockDeviceMappings i of None \<Rightarrow> [] | Some bs \<Rightarrow> bs)) insts)"
  by (induction insts arbitrary: acc)
     (simp_all add: block_device_mappings_loop_eq get_or_empty_def)

lemma reservations_loop_eq:
  "reservations_loop rs acc =
     acc @ concat (map (\<lambda>r. concat (map (\<lambda>i. map (\<lambda>b. ebs_VolumeId (Ebs b))
                          (case BlockDeviceMappings i of None \<Rightarrow> [] | Some bs \<Rightarrow> bs))
                       (case Instances r of None \<Rightarrow> [] | Some insts \<Rightarrow> insts))) rs)"
  by (induction rs arbitrary: acc) (simp_all add: instances_loop_eq get_or_empty_def)

lemma attached_volume_ids_eq:
  "attached_volume_ids iresp =
     concat (map (\<lambda>r. concat (map (\<lambda>i. map (\<lambda>b. ebs_VolumeId (Ebs b))
                          (case BlockDeviceMappings i of None \<Rightarrow> [] | Some bs \<Rightarrow> bs))
                       (case Instances r of None \<Rightarrow> [] | Some insts \<Rightarrow> insts)))
       (case Reservations iresp of None \<Rightarrow> [] | Some rs \<Rightarrow> rs))"
  by (simp add: attached_volume_ids_def reservations_loop_eq get_or_empty_def)

text \<open>
  C2. When the metadata of the instance lists \<open>N\<close> attached volumes (the volume ids of
  the block-device mappings of the instances of the reservations, in that order) and
  the volume-describe call for these ids answers with those \<open>N\<close> volumes, in any
  order, \<open>get_ec2_instance_size\<close> returns exactly \<open>N\<close> records, one for each volume
  of the answer: keyed \<open>instance_id::volume_id\<close> and carrying the volume's size in GiB
  times \<open>1024 ^ 3\<close>. The keys are those of the listed volumes.
\<close>

theorem ec2_one_record_per_attached_volume:
  assumes "ec2_describe_instances s region [instance_id] = Inr iresp"
    and "listed =
           concat (map (\<lambda>r. concat (map (\<lambda>i. map (\<lambda>b. ebs_VolumeId (Ebs b))
                          (case BlockDeviceMappings i of None \<Rightarrow> [] | Some bs \<Rightarrow> bs))
                       (case Instances r of None \<Rightarrow> [] | Some insts \<Rightarrow> insts)))
             (case Reservations iresp of None \<Rightarrow> [] | Some rs \<Rightarrow> rs))"
    and "length listed = N"
    and "ec2_describe_volumes s region listed = Inr vresp"
    and "(case Volumes vresp of None \<Rightarrow> [] | Some vs \<Rightarrow> vs) = vols"
    and "mset (map VolumeId vols) = mset listed"
  shows "\<exists>records.
           get_ec2_instance_size s account region instance_id = Inr records \<and>
           length records = N \<and>
           records =
             map (\<lambda>v. \<lparr>account_id = account, region_name = region,
                        resource_key = instance_id @ ''::'' @ VolumeId v,
                        size_bytes = PyInt (Size v * 1024 ^ 3)\<rparr>) vols \<and>
           mset (map resource_key records) =
             mset (map (\<lambda>volume_id. instance_id @ ''::'' @ volume_id) listed)"
proof -
  have ids: "attached_volume_ids iresp = listed"
    unfolding assms(2) by (rule attached_volume_ids_eq)
  have len: "length vols = N"
    using assms(3,6) by (metis length_map size_mset)
  have res: "get_ec2_instance_size s account region instance_id =
          Inr (map (\<lambda>v. \<lparr>account_id = account, region_name = region,
                          resource_key = instance_id @ ''::'' @ VolumeId v,
                          size_bytes = PyInt (Size v * 1024 ^ 3)\<rparr>) vols)"
    using get_ec2_instance_size_eq [OF assms(1), of vresp account] assms(4,5) ids
    by (simp add: get_or_empty_def)
  have "mset (map (\<lambda>v. instance_id @ ''::'' @ VolumeId v) vols) =
          image_mset (\<lambda>volume_id. instance_id @ ''::'' @ volume_id) (mset (map VolumeId vols))"
    by (simp add: multiset.map_comp comp_def)
  then have keys: "mset (map (\<lambda>v. instance_id @ ''::'' @ VolumeId v) vols) =
          mset (map (\<lambda>volume_id. instance_id @ ''::'' @ volume_id) listed)"
    unfolding assms(6) by simp
  let ?records = "map (\<lambda>v. \<lparr>account_id = account, region_name = region,
                          resource_key = instance_id @ ''::'' @ VolumeId v,
                          size_bytes = PyInt (Size v * 1024 ^ 3)\<rparr>) vols"
  have km: "map resource_key ?records = map (\<lambda>v. instance_id @ ''::'' @ VolumeId v) vols"
    by simp
  show ?thesis
  proof (intro exI conjI)
    show "get_ec2_instance_size s account region instance_id = Inr ?records"
      by (rule res)
    show "length ?records = N"
      using len by simp
    show "?records = ?records"
      by (rule refl)
    show "mset (map resource_key ?records) =
        mset (map (\<lambda>volume_id. instance_id @ ''::'' @ volume_id) listed)"
      unfolding km by (rule keys)
  qed
qed

theorem ec2_one_record_per_attached_volume_witness:
  "get_ec2_instance_size two_volume_session ''acct'' ''eu-west-1'' ''i-1'' =
     Inr [\<lparr>account_id = ''acct'', region_name = ''eu-west-1'', resource_key = ''i-1::vol-a'',
           size_bytes = PyInt (20 * 1024 ^ 3)\<rparr>,
          \<lparr>account_id = ''acct'', region_name = ''eu-west-1'', resource_key = ''i-1::vol-b'',
           size_bytes = PyInt (100 * 1024 ^ 3)\<rparr>] \<and>
   get_ec2_instance_size spread_volume_session ''acct'' ''eu-west-1'' ''i-2'' =
     Inr [\<lparr>account_id = ''acct'', region_name = ''eu-west-1'', resource_key = ''i-2::vol-z'',
           size_bytes = PyInt (8 * 1024 ^ 3)\<rparr>,
          \<lparr>account_id = ''acct'', region_name = ''eu-west-1'', resource_key = ''i-2::vol-x'',
           size_bytes = PyInt (30 * 1024 ^ 3)\<rparr>,
          \<lparr>account_id = ''acct'', region_name = ''eu-west-1'', resource_key = ''i-2::vol-y'',
           size_bytes = PyInt (500 * 1024 ^ 3)\<rparr>]"
proof -
  have a1: "ec2_describe_instances two_volume_session ''eu-west-1'' [''i-1''] =
      Inr two_volume_instances"
    by (simp add: two_volume_session_def offline_session_def)
  have a2: "[''vol-a'', ''vol-b''] =
           concat (map (\<lambda>r. concat (map (\<lambda>i. map (\<lambda>b. ebs_VolumeId (Ebs b))
                          (case BlockDeviceMappings i of None \<Rightarrow> [] | Some bs \<Rightarrow> bs))
                       (case Instances r of None \<Rightarrow> [] | Some insts \<Rightarrow> insts)))
             (case Reservations two_volume_instances of None \<Rightarrow> [] | Some rs \<Rightarrow> rs))"
    by (simp add: two_volume_instances_def)
  have a3: "length [''vol-a'', ''vol-b''] = 2"
    by simp
  have a4: "ec2_describe_volumes two_volume_session ''eu-west-1'' [''vol-a'', ''vol-b''] =
      Inr \<lparr>Volumes = Some two_volumes\<rparr>"
    by (simp add: two_volume_session_def offline_session_def)
  have a5: "(case Volumes \<lparr>Volumes = Some two_volumes\<rparr> of None \<Rightarrow> [] | Some vs \<Rightarrow> vs) =
      two_volumes"
    by simp
  have a6: "mset (map VolumeId two_volumes) = mset [''vol-a'', ''vol-b'']"
    by (simp add: two_volumes_def)
  have b1: "ec2_describe_instances spread_volume_session ''eu-west-1'' [''i-2''] =
      Inr spread_instances"
    by (simp add: spread_volume_session_def offline_session_def)
  have b2: "[''vol-x'', ''vol-y'', ''vol-z''] =
           concat (map (\<lambda>r. concat (map (\<lambda>i. map (\<lambda>b. ebs_VolumeId (Ebs b))
                          (case BlockDeviceMappings i of None \<Rightarrow> [] | Some bs \<Rightarrow> bs))
                       (case Instances r of None \<Rightarrow> [] | Some insts \<Rightarrow> insts)))
             (case Reservations spread_instances of None \<Rightarrow> [] | Some rs \<Rightarrow> rs))"
    by (simp add: spread_instances_def)
  have b3: "length [''vol-x'', ''vol-y'', ''vol-z''] = 3"
    by simp
  have b4: "ec2_describe_volumes spread_volume_session ''eu-west-1''
      [''vol-x'', ''vol-y'', ''vol-z''] = Inr \<lparr>Volumes = Some spread_volumes\<rparr>"
    by (simp add: spread_volume_session_def offline_session_def)
  have b5: "(case Volumes \<lparr>Volumes = Some spread_volumes\<rparr> of None \<Rightarrow> [] | Some vs \<Rightarrow> vs) =
      spread_volumes"
    by simp
  have b6: "mset (map VolumeId spread_volumes) = mset [''vol-x'', ''vol-y'', ''vol-z'']"
    by (simp add: spread_volumes_def)
  from ec2_one_record_per_attached_volume [OF a1 a2 a3 a4 a5 a6, of "''acct''"]
  obtain records1 where
    "get_ec2_instance_size two_volume_session ''acct'' ''eu-west-1'' ''i-1'' = Inr records1"
    "records1 =
       map (\<lambda>v. \<lparr>account_id = ''acct'', region_name = ''eu-west-1'',
                  resource_key = ''i-1'' @ ''::'' @ VolumeId v,
                  size_bytes = PyInt (Size v * 1024 ^ 3)\<rparr>) two_volumes"
    by blast
  then have r1: "get_ec2_instance_size two_volume_session ''acct'' ''eu-west-1'' ''i-1'' =
     Inr [\<lparr>account_id = ''acct'', region_name = ''eu-west-1'', resource_key = ''i-1::vol-a'',
           size_bytes = PyInt (20 * 1024 ^ 3)\<rparr>,
          \<lparr>account_id = ''acct'', region_name = ''eu-west-1'', resource_key = ''i-1::vol-b'',
           size_bytes = PyInt (100 * 1024 ^ 3)\<rparr>]"
    by (simp add: two_volumes_def)
  from ec2_one_record_per_attached_volume [OF b1 b2 b3 b4 b5 b6, of "''acct''"]
  obtain records2 where
    "get_ec2_instance_size spread_volume_session ''acct'' ''eu-west-1'' ''i-2'' = Inr records2"
    "records2 =
       map (\<lambda>v. \<lparr>account_id = ''acct'', region_name = ''eu-west-1'',
                  resource_key = ''i-2'' @ ''::'' @ VolumeId v,
                  size_bytes = PyInt (Size v * 1024 ^ 3)\<rparr>) spread_volumes"
    by blast
  then have r2: "get_ec2_instance_size spread_volume_session ''acct'' ''eu-west-1'' ''i-2'' =
     Inr [\<lparr>account_id = ''acct'', region_name = ''eu-west-1'', resource_key = ''i-2::vol-z'',
           size_bytes = PyInt (8 * 1024 ^ 3)\<rparr>,
          \<lparr>account_id = ''acct'', region_name = ''eu-west-1'', resource_key = ''i-2::vol-x'',
           size_bytes = PyInt (30 * 1024 ^ 3)\<rparr>,
          \<lparr>account_id = ''acct'', region_name = ''eu-west-1'', resource_key = ''i-2::vol-y'',
           size_bytes = PyInt (500 * 1024 ^ 3)\<rparr>]"
    by (simp add: spread_volumes_def)
  from r1 r2 show ?thesis by (intro conjI)
qed

section \<open>Properties of the descending sort\<close>

lemma sorted_map_last_max:
  "sorted (map k ys) \<Longrightarrow> y \<in> set ys \<Longrightarrow> k y \<le> k (last ys)"
  by (induction ys) auto

lemma sorted_reverse_Nil_iff: "sorted_reverse k xs = [] \<longleftrightarrow> xs = []"
  by (simp add: sorted_reverse_def) (metis length_0_conv length_sort length_rev)

lemma set_sorted_reverse: "set (sorted_reverse k xs) = set xs"
  by (simp add: sorted_reverse_def)

lemma sorted_reverse_head:
  assumes "xs \<noteq> []"
  shows "\<exists>x rest. sorted_reverse k xs = x # rest \<and> x \<in> set xs \<and> (\<forall>y \<in> set xs. k y \<le> k x)"
proof -
  let ?ys = "sort_key k (rev xs)"
  have ne: "?ys \<noteq> []"
    using assms by (metis length_0_conv length_sort length_rev)
  have srt: "sorted (map k ?ys)" by simp
  have mx: "\<forall>y \<in> set xs. k y \<le> k (last ?ys)"
    using sorted_map_last_max [OF srt] by simp
  have mem: "last ?ys \<in> set xs"
    using last_in_set [OF ne] by simp
  have "rev ?ys = last ?ys # rev (butlast ?ys)"
    using ne by (metis append_butlast_last_id rev_append append_Cons append_Nil rev_singleton_conv)
  then have "sorted_reverse k xs = last ?ys # rev (butlast ?ys)"
    by (simp add: sorted_reverse_def)
  with mx mem show ?thesis by blast
qed

lemma sorted_filter_max_suffix:
  "sorted (map k ys) \<Longrightarrow> \<forall>y \<in> set ys. k y \<le> M \<Longrightarrow>
     ys = filter (\<lambda>y. k y \<noteq> M) ys @ filter (\<lambda>y. k y = M) ys"
proof (induction ys)
  case Nil
  then show ?case by simp
next
  case (Cons a ys)
  show ?case
  proof (cases "k a = M")
    case True
    with Cons.prems have "\<forall>y \<in> set ys. k y = M"
      by (auto simp: order.antisym)
    then have "filter (\<lambda>y. k y \<noteq> M) ys = []" "filter (\<lambda>y. k y = M) ys = ys"
      by (simp_all add: filter_empty_conv)  
    with True show ?thesis by simp
  next
    case False
    with Cons show ?thesis by simp
  qed
qed

lemma sort_key_const: "\<forall>y \<in> set ys. k y = M \<Longrightarrow> sort_key k ys = ys"
  by (rule sort_key_id_if_sorted) (simp add: sorted_map sorted_wrt_iff_nth_less)

lemma sorted_reverse_stable:
  assumes "\<forall>y \<in> set xs. k y \<le> M"
  shows "sorted_reverse k xs =
           filter (\<lambda>y. k y = M) xs @ sorted_reverse k (filter (\<lambda>y. k y \<noteq> M) xs)"
proof -
  let ?ys = "sort_key k (rev xs)"
  have "?ys = filter (\<lambda>y. k y \<noteq> M) ?ys @ filter (\<lambda>y. k y = M) ?ys"
    by (rule sorted_filter_max_suffix) (use assms in simp_all)
  moreover have "filter (\<lambda>y. k y = M) ?ys = rev (filter (\<lambda>y. k y = M) xs)"
  proof -
    have "sort_key k (filter (\<lambda>y. k y = M) (rev xs)) = filter (\<lambda>y. k y = M) (rev xs)"
      by (rule sort_key_const [where M = M]) simp
    then show ?thesis by (simp add: filter_sort rev_filter)
  qed
  moreover have "filter (\<lambda>y. k y \<noteq> M) ?ys = sort_key k (rev (filter (\<lambda>y. k y \<noteq> M) xs))"
    by (simp add: filter_sort rev_filter)
  ultimately have "?ys = sort_key k (rev (filter (\<lambda>y. k y \<noteq> M) xs)) @ rev (filter (\<lambda>y. k y = M) xs)"
    by simp
  then have "rev ?ys = filter (\<lambda>y. k y = M) xs @ rev (sort_key k (rev (filter (\<lambda>y. k y \<noteq> M) xs)))"
    by (metis rev_append rev_rev_ident) 
  then show ?thesis by (simp add: sorted_reverse_def)
qed

lemma sorted_reverse_selects:
  assumes "xs \<noteq> []"
  shows "\<exists>x rest pre post.
           sorted_reverse k xs = x # rest \<and> xs = pre @ x # post \<and>
           (\<forall>y \<in> set pre. k y < k x) \<and> (\<forall>y \<in> set post. k y \<le> k x)"
proof -
  from sorted_reverse_head [OF assms, of k] obtain x0 rest0 where
    hd0: "sorted_reverse k xs = x0 # rest0" and mem0: "x0 \<in> set xs"
    and max0: "\<forall>y \<in> set xs. k y \<le> k x0"
    by blast
  let ?M = "k x0"
  from mem0 have "\<exists>x \<in> set xs. k x = ?M" by blast
  then obtain pre x post where
    split: "xs = pre @ x # post" and kx: "k x = ?M" and pre: "\<forall>y \<in> set pre. k y \<noteq> ?M"
    using split_list_first_prop [of xs "\<lambda>y. k y = ?M"] by blast
  have "filter (\<lambda>y. k y = ?M) pre = []"
    using pre by (simp add: filter_empty_conv)
  then have flt: "filter (\<lambda>y. k y = ?M) xs = x # filter (\<lambda>y. k y = ?M) post"
    using split kx by simp
  have "sorted_reverse k xs =
      x # filter (\<lambda>y. k y = ?M) post @ sorted_reverse k (filter (\<lambda>y. k y \<noteq> ?M) xs)"
    using sorted_reverse_stable [OF max0] flt by simp
  moreover have "\<forall>y \<in> set pre. k y < k x"
    using pre max0 split kx by (auto simp: less_le)
  moreover have "\<forall>y \<in> set post. k y \<le> k x"
    using max0 split kx by auto
  ultimately show ?thesis
    using split by blast
qed

section \<open>Properties of the relational-cluster lookup\<close>

lemma period_30_minutes:
  "minutes 30 = 1800000000" "py_int (total_seconds 1800000000) = 1800"
  by (simp_all add: minutes_def total_seconds_def py_int_def floor_Fract Fract_less_zero_iff)

lemma period_2_days:
  "days 2 = 172800000000" "py_int (total_seconds 172800000000) = 172800"
  by (simp_all add: days_def total_seconds_def py_int_def floor_Fract Fract_less_zero_iff)

lemma rds_cluster_aurora_eq:
  assumes "rds_describe_db_clusters s region cid = Inr cresp"
    and "DBClusters cresp = cluster # others"
    and "startswith (Engine cluster) ''aurora-''"
    and "cloudwatch_get_metric_statistics s region
           \<lparr>ms_Namespace = ''AWS/RDS'', ms_MetricName = ''VolumeBytesUsed'',
            ms_Dimensions = [\<lparr>dim_Name = ''DBClusterIdentifier'', dim_Value = cid\<rparr>],
            ms_StartTime = now - 30 * 60 * 1000000, ms_EndTime = now,
            ms_Statistics = [''Maximum''], ms_Period = 30 * 60, ms_Unit = ''Bytes''\<rparr> = r"
  shows "get_rds_cluster_size s now account region cid =
     (case r of
        Inl m \<Rightarrow> Inl (ClientError m)
      | Inr mresp \<Rightarrow>
          if Datapoints mresp = [] then
            Inl (Exception (''The VolumeBytesUsed metric was not found for DB cluster '' @ cid))
          else
            Inr \<lparr>account_id = account, region_name = region, resource_key = cid,
                 size_bytes =
                   PyInt (py_int (Maximum (hd (sorted_reverse Timestamp (Datapoints mresp)))))\<rparr>)"
proof (cases r)
  case (Inl m)
  then show ?thesis
    using assms by (simp add: get_rds_cluster_size_def period_30_minutes Let_def)
next
  case (Inr mresp)
  show ?thesis
  proof (cases "Datapoints mresp = []")
    case True
    then show ?thesis
      using assms Inr by (simp add: get_rds_cluster_size_def period_30_minutes Let_def)
  next
    case False
    then obtain d rest where "sorted_reverse Timestamp (Datapoints mresp) = d # rest"
      using sorted_reverse_head by blast
    then show ?thesis
      using assms Inr False by (simp add: get_rds_cluster_size_def period_30_minutes Let_def)
  qed
qed

text \<open>
  C3. For a cluster whose engine name starts with \<open>aurora-\<close> and whose monitoring query
  over the trailing 30 minutes (from \<open>now - 30 min\<close> to \<open>now\<close>, statistic
  \<open>Maximum\<close>, period 1800 s) returns a non-empty datapoint list,
  \<open>get_rds_cluster_size\<close> returns a single record whose size is the truncation toward
  zero of the \<open>Maximum\<close> of the datapoint \<open>d\<close> at index 0 of the list sorted by
  timestamp descending: \<open>d\<close> has the greatest timestamp, and is the first of the
  response's datapoints that has it.
\<close>

theorem aurora_latest_maximum:
  assumes "rds_describe_db_clusters s region cid = Inr cresp"
    and "DBClusters cresp = cluster # others"
    and "startswith (Engine cluster) ''aurora-''"
    and "cloudwatch_get_metric_statistics s region
           \<lparr>ms_Namespace = ''AWS/RDS'', ms_MetricName = ''VolumeBytesUsed'',
            ms_Dimensions = [\<lparr>dim_Name = ''DBClusterIdentifier'', dim_Value = cid\<rparr>],
            ms_StartTime = now - 30 * 60 * 1000000, ms_EndTime = now,
            ms_Statistics = [''Maximum''], ms_Period = 30 * 60, ms_Unit = ''Bytes''\<rparr> = Inr mresp"
    and "Datapoints mresp \<noteq> []"
  shows "\<exists>d pre post.
           Datapoints mresp = pre @ d # post \<and>
           (\<forall>d' \<in> set pre. Timestamp d' < Timestamp d) \<and>
           (\<forall>d' \<in> set post. Timestamp d' \<le> Timestamp d) \<and>
           hd (sorted_reverse Timestamp (Datapoints mresp)) = d \<and>
           get_rds_cluster_size s now account region cid =
             Inr \<lparr>account_id = account, region_name = region, resource_key = cid,
                  size_bytes = PyInt (py_int (Maximum d))\<rparr>"
proof -
  from sorted_reverse_selects [OF assms(5), of Timestamp] obtain d rest pre post where
    "sorted_reverse Timestamp (Datapoints mresp) = d # rest"
    "Datapoints mresp = pre @ d # post"
    "\<forall>y \<in> set pre. Timestamp y < Timestamp d" "\<forall>y \<in> set post. Timestamp y \<le> Timestamp d"
    by blast
  moreover have "get_rds_cluster_size s now account region cid =
      Inr \<lparr>account_id = account, region_name = region, resource_key = cid,
           size_bytes =
             PyInt (py_int (Maximum (hd (sorted_reverse Timestamp (Datapoints mresp)))))\<rparr>"
    using rds_cluster_aurora_eq [OF assms(1-4)] assms(5) by simp
  ultimately show ?thesis by auto
qed

theorem aurora_latest_maximum_witness:
  "get_rds_cluster_size aurora_session 0 ''acct'' ''us-east-1'' ''db-1'' =
     Inr \<lparr>account_id = ''acct'', region_name = ''us-east-1'', resource_key = ''db-1'',
          size_bytes = PyInt 7\<rparr>"
proof -
  have h1: "rds_describe_db_clusters aurora_session ''us-east-1'' ''db-1'' =
      Inr \<lparr>DBClusters = [\<lparr>Engine = ''aurora-postgresql'', cluster_AllocatedStorage = 1\<rparr>]\<rparr>"
    by (simp add: aurora_session_def offline_session_def)
  have h2: "DBClusters \<lparr>DBClusters = [\<lparr>Engine = ''aurora-postgresql'', cluster_AllocatedStorage = 1\<rparr>]\<rparr> =
      \<lparr>Engine = ''aurora-postgresql'', cluster_AllocatedStorage = 1\<rparr> # []"
    by simp
  have h3: "startswith (Engine \<lparr>Engine = ''aurora-postgresql'', cluster_AllocatedStorage = 1\<rparr>) ''aurora-''"
    by (simp add: startswith_def)
  have h4: "cloudwatch_get_metric_statistics aurora_session ''us-east-1''
           \<lparr>ms_Namespace = ''AWS/RDS'', ms_MetricName = ''VolumeBytesUsed'',
            ms_Dimensions = [\<lparr>dim_Name = ''DBClusterIdentifier'', dim_Value = ''db-1''\<rparr>],
            ms_StartTime = 0 - 30 * 60 * 1000000, ms_EndTime = 0,
            ms_Statistics = [''Maximum''], ms_Period = 30 * 60, ms_Unit = ''Bytes''\<rparr> =
          Inr \<lparr>Datapoints = aurora_datapoints\<rparr>"
    by (simp add: aurora_session_def offline_session_def)
  have h5: "Datapoints \<lparr>Datapoints = aurora_datapoints\<rparr> \<noteq> []"
    by (simp add: aurora_datapoints_def)
  from aurora_latest_maximum [OF h1 h2 h3 h4 h5, of "''acct''"]
  obtain d pre post where
    split: "aurora_datapoints = pre @ d # post"
    and hd: "hd (sorted_reverse Timestamp aurora_datapoints) = d"
    and res: "get_rds_cluster_size aurora_session 0 ''acct'' ''us-east-1'' ''db-1'' =
             Inr \<lparr>account_id = ''acct'', region_name = ''us-east-1'', resource_key = ''db-1'',
                  size_bytes = PyInt (py_int (Maximum d))\<rparr>"
    by auto
  have "hd (sorted_reverse Timestamp aurora_datapoints) = \<lparr>Timestamp = 300, Maximum = 15 / 2, Average = 0\<rparr>"
    by (simp add: sorted_reverse_def aurora_datapoints_def)
  moreover have "py_int (15 / 2) = 7"
    by code_simp
  ultimately have "py_int (Maximum d) = 7"
    using hd by simp
  with res show ?thesis by simp
qed

lemma rds_cluster_not_found_eq:
  assumes "rds_describe_db_clusters s region cid = Inr cresp" and "DBClusters cresp = []"
  shows "get_rds_cluster_size s now account region cid =
           Inl (Exception (''DB Cluster '' @ cid @ '' was not found''))"
  using assms by (simp add: get_rds_cluster_size_def)

lemma rds_cluster_provider_error:
  assumes "rds_describe_db_clusters s region cid = Inl m"
  shows "get_rds_cluster_size s now account region cid = Inl (ClientError m)"
  using assms by (simp add: get_rds_cluster_size_def)

lemma rds_cluster_allocated_eq:
  assumes "rds_describe_db_clusters s region cid = Inr cresp"
    and "DBClusters cresp = cluster # others"
    and "\<not> startswith (Engine cluster) ''aurora-''"
  shows "get_rds_cluster_size s now account region cid =
           Inr \<lparr>account_id = account, region_name = region, resource_key = cid,
                size_bytes = PyInt (cluster_AllocatedStorage cluster * 1024 ^ 3)\<rparr>"
  using assms by (simp add: get_rds_cluster_size_def)

text \<open>
  C4. \<open>get_rds_cluster_size\<close> raises the not-found error exactly when the provider
  answers with an empty cluster list, and raises the metric-not-found error exactly
  when the first cluster is an \<open>aurora-\<close> one and the monitoring query answers with
  zero datapoints. A lookup that raises returns no record.
\<close>

theorem rds_cluster_failures:
  "(get_rds_cluster_size s now account region cid =
      Inl (Exception (''DB Cluster '' @ cid @ '' was not found''))) =
   (\<exists>cresp. rds_describe_db_clusters s region cid = Inr cresp \<and> DBClusters cresp = []) \<and>
   (get_rds_cluster_size s now account region cid =
      Inl (Exception (''The VolumeBytesUsed metric was not found for DB cluster '' @ cid))) =
   (\<exists>cresp cluster others mresp.
      rds_describe_db_clusters s region cid = Inr cresp \<and>
      DBClusters cresp = cluster # others \<and>
      startswith (Engine cluster) ''aurora-'' \<and>
      cloudwatch_get_metric_statistics s region
        \<lparr>ms_Namespace = ''AWS/RDS'', ms_MetricName = ''VolumeBytesUsed'',
         ms_Dimensions = [\<lparr>dim_Name = ''DBClusterIdentifier'', dim_Value = cid\<rparr>],
         ms_StartTime = now - 30 * 60 * 1000000, ms_EndTime = now,
         ms_Statistics = [''Maximum''], ms_Period = 30 * 60, ms_Unit = ''Bytes''\<rparr> = Inr mresp \<and>
      Datapoints mresp = []) \<and>
   ((\<exists>e. get_rds_cluster_size s now account region cid = Inl e) \<longrightarrow>
    (\<forall>r. get_rds_cluster_size s now account region cid \<noteq> Inr r))"
proof (cases "rds_describe_db_clusters s region cid")
  case (Inl m)
  then show ?thesis
    using rds_cluster_provider_error [OF Inl] by auto
next
  case (Inr cresp)
  show ?thesis
  proof (cases "DBClusters cresp")
    case Nil
    then show ?thesis
      using rds_cluster_not_found_eq [OF Inr Nil] Inr by auto
  next
    case (Cons cluster others)
    show ?thesis
    proof (cases "startswith (Engine cluster) ''aurora-''")
      case False
      then show ?thesis
        using rds_cluster_allocated_eq [OF Inr Cons False] Inr Cons by auto
    next
      case True
      show ?thesis
        using rds_cluster_aurora_eq [OF Inr Cons True refl, of now account] Inr Cons True
        by (auto split: sum.splits if_splits)
    qed
  qed
qed

theorem rds_cluster_failures_witness:
  "get_rds_cluster_size no_cluster_session 0 ''acct'' ''us-east-1'' ''db-1'' =
     Inl (Exception ''DB Cluster db-1 was not found'') \<and>
   get_rds_cluster_size aurora_silent_session 0 ''acct'' ''us-east-1'' ''db-1'' =
     Inl (Exception ''The VolumeBytesUsed metric was not found for DB cluster db-1'') \<and>
   get_rds_cluster_size aurora_session 0 ''acct'' ''us-east-1'' ''db-1'' \<noteq>
     Inl (Exception ''The VolumeBytesUsed metric was not found for DB cluster db-1'')"
  using rds_cluster_failures [of no_cluster_session 0 "''acct''" "''us-east-1''" "''db-1''"]
    rds_cluster_failures [of aurora_silent_session 0 "''acct''" "''us-east-1''" "''db-1''"]
    rds_cluster_failures [of aurora_session 0 "''acct''" "''us-east-1''" "''db-1''"]
  by (simp add: no_cluster_session_def aurora_silent_session_def aurora_session_def
        offline_session_def startswith_def aurora_datapoints_def)

section \<open>Properties of the data-warehouse lookup\<close>

lemma period_7_days: "days 7 = 604800000000"
  by (simp add: days_def)

lemma redshift_cluster_eq:
  assumes "redshift_describe_cluster_snapshots s region
             \<lparr>cs_ClusterIdentifier = cid,
              cs_StartTime = now - 7 * 24 * 60 * 60 * 1000000,
              cs_SortingEntities = [(''CREATE_TIME'', ''DESC'')]\<rparr> = Inr resp"
  shows "get_redshift_cluster_size s now account region cid =
     (if Snapshots resp = [] then
        Inl (Exception (''Cluster '' @ cid @
                        '' does not have any snapshots in the last seven days''))
      else
        Inr \<lparr>account_id = account, region_name = region, resource_key = cid,
             size_bytes =
               PyFloat (TotalBackupSizeInMegaBytes
                          (hd (sorted_reverse SnapshotCreateTime (Snapshots resp))) * 1024 ^ 2)\<rparr>)"
proof (cases "Snapshots resp = []")
  case True
  then show ?thesis
    using assms by (simp add: get_redshift_cluster_size_def period_7_days sorted_reverse_def)
next
  case False
  then obtain sn rest where "sorted_reverse SnapshotCreateTime (Snapshots resp) = sn # rest"
    using sorted_reverse_head by blast
  then show ?thesis
    using assms False by (simp add: get_redshift_cluster_size_def period_7_days)
qed

text \<open>
  C5. Whatever the order of the snapshots the provider returns for the trailing seven
  days, \<open>get_redshift_cluster_size\<close> raises the no-snapshots error when there are none,
  and otherwise selects the snapshot \<open>sn\<close> at index 0 of the collection sorted by
  \<open>SnapshotCreateTime\<close> descending, which has the latest creation time (the first
  such in the response), and returns its \<open>TotalBackupSizeInMegaBytes\<close> times
  \<open>1024 ^ 2\<close>.
\<close>

theorem redshift_latest_snapshot:
  assumes "redshift_describe_cluster_snapshots s region
             \<lparr>cs_ClusterIdentifier = cid,
              cs_StartTime = now - 7 * 24 * 60 * 60 * 1000000,
              cs_SortingEntities = [(''CREATE_TIME'', ''DESC'')]\<rparr> = Inr resp"
  shows "(Snapshots resp = [] \<longrightarrow>
            get_redshift_cluster_size s now account region cid =
              Inl (Exception (''Cluster '' @ cid @
                              '' does not have any snapshots in the last seven days''))) \<and>
         (Snapshots resp \<noteq> [] \<longrightarrow>
            (\<exists>sn pre post.
               Snapshots resp = pre @ sn # post \<and>
               (\<forall>x \<in> set pre. SnapshotCreateTime x < SnapshotCreateTime sn) \<and>
               (\<forall>x \<in> set post. SnapshotCreateTime x \<le> SnapshotCreateTime sn) \<and>
               hd (sorted_reverse SnapshotCreateTime (Snapshots resp)) = sn \<and>
               get_redshift_cluster_size s now account region cid =
                 Inr \<lparr>account_id = account, region_name = region, resource_key = cid,
                      size_bytes = PyFloat (TotalBackupSizeInMegaBytes sn * 1024 ^ 2)\<rparr>))"
proof (cases "Snapshots resp = []")
  case True
  then show ?thesis
    using redshift_cluster_eq [OF assms] by simp
next
  case False
  from sorted_reverse_selects [OF False, of SnapshotCreateTime] obtain sn rest pre post where
    "sorted_reverse SnapshotCreateTime (Snapshots resp) = sn # rest"
    "Snapshots resp = pre @ sn # post"
    "\<forall>y \<in> set pre. SnapshotCreateTime y < SnapshotCreateTime sn"
    "\<forall>y \<in> set post. SnapshotCreateTime y \<le> SnapshotCreateTime sn"
    by blast
  moreover have "get_redshift_cluster_size s now account region cid =
        Inr \<lparr>account_id = account, region_name = region, resource_key = cid,
             size_bytes =
               PyFloat (TotalBackupSizeInMegaBytes
                          (hd (sorted_reverse SnapshotCreateTime (Snapshots resp))) * 1024 ^ 2)\<rparr>"
    using redshift_cluster_eq [OF assms] False by simp
  ultimately show ?thesis
    using False by auto
qed

theorem redshift_latest_snapshot_witness:
  "get_redshift_cluster_size no_snapshot_session 0 ''acct'' ''us-east-1'' ''wh-1'' =
     Inl (Exception ''Cluster wh-1 does not have any snapshots in the last seven days'') \<and>
   get_redshift_cluster_size snapshot_session 0 ''acct'' ''us-east-1'' ''wh-1'' =
     Inr \<lparr>account_id = ''acct'', region_name = ''us-east-1'', resource_key = ''wh-1'',
          size_bytes = PyFloat (5 / 2 * 1024 ^ 2)\<rparr>"
proof -
  have e: "redshift_describe_cluster_snapshots no_snapshot_session ''us-east-1''
             \<lparr>cs_ClusterIdentifier = ''wh-1'',
              cs_StartTime = 0 - 7 * 24 * 60 * 60 * 1000000,
              cs_SortingEntities = [(''CREATE_TIME'', ''DESC'')]\<rparr> = Inr \<lparr>Snapshots = []\<rparr>"
    by (simp add: no_snapshot_session_def offline_session_def)
  have u: "redshift_describe_cluster_snapshots snapshot_session ''us-east-1''
             \<lparr>cs_ClusterIdentifier = ''wh-1'',
              cs_StartTime = 0 - 7 * 24 * 60 * 60 * 1000000,
              cs_SortingEntities = [(''CREATE_TIME'', ''DESC'')]\<rparr> =
             Inr \<lparr>Snapshots = unsorted_snapshots\<rparr>"
    by (simp add: snapshot_session_def offline_session_def)
  have h: "hd (sorted_reverse SnapshotCreateTime unsorted_snapshots) =
      \<lparr>SnapshotCreateTime = 30, TotalBackupSizeInMegaBytes = 5 / 2\<rparr>"
    by (simp add: sorted_reverse_def unsorted_snapshots_def)
  have ne: "unsorted_snapshots \<noteq> []"
    by (simp add: unsorted_snapshots_def)
  show ?thesis
    using redshift_latest_snapshot [OF e, of "''acct''"]
      redshift_latest_snapshot [OF u, of "''acct''"] h ne
    by auto
qed

section \<open>Properties of the object-storage lookup\<close>

lemma bucket_validation_raised:
  assumes "s3_get_bucket_location s region b = Inl m"
  shows "bucket_validation s region b =
           Inl (Exception (''Bucket '' @ b @ '' was not found in Region '' @ region @
                           '' or credentials are invalid. Inner exception '' @ m))"
  using assms by (simp add: bucket_validation_def)

lemma bucket_validation_answered:
  assumes "s3_get_bucket_location s region b = Inr resp"
  shows "bucket_validation s region b =
           (if location_constraint resp \<noteq> region then
              Inl (Exception (''Bucket '' @ b @ '' was not found in Region '' @ region @
                              '' or credentials are invalid. Inner exception '' @
                              ''Bucket '' @ b @ '' is not in Region '' @ region))
            else Inr ())"
  using assms by (simp add: bucket_validation_def)

lemma get_bucket_size_invalid:
  assumes "bucket_validation s region b = Inl e"
  shows "get_bucket_size s now account region b = ([GetBucketLocation region b], Inl e)"
  using assms by (simp add: get_bucket_size_def)

lemma metrics_loop_error: "metrics_loop ms acc = Inl e \<Longrightarrow> e = IndexError"
  by (induction ms arbitrary: acc) (auto split: list.splits)

lemma metrics_loop_all:
  "\<forall>m \<in> set ms. storage_type_values m \<noteq> [] \<Longrightarrow>
     metrics_loop ms acc = Inr (acc @ map (\<lambda>m. (hd (storage_type_values m), Dimensions m)) ms)"
  by (induction ms arbitrary: acc) (auto split: list.splits)

lemma metrics_loop_missing:
  "\<exists>m \<in> set ms. storage_type_values m = [] \<Longrightarrow> metrics_loop ms acc = Inl IndexError"
  by (induction ms arbitrary: acc) (auto split: list.splits)

lemma metrics_loop_append:
  "metrics_loop (xs @ ys) acc =
     (case metrics_loop xs acc of Inl e \<Rightarrow> Inl e | Inr acc' \<Rightarrow> metrics_loop ys acc')"
  by (induction xs arbitrary: acc) (auto split: list.splits sum.splits)

lemma pages_loop_snd:
  "snd (pages_loop region req (map Inr pages) calls acc) =
     metrics_loop (concat (map Metrics pages)) acc"
  by (induction pages arbitrary: calls acc)
     (auto simp: metrics_loop_append split: sum.splits)

lemma pages_loop_fst:
  "metrics_loop (concat (map Metrics pages)) acc = Inr md \<Longrightarrow>
     fst (pages_loop region req (map Inr pages) calls acc) =
       calls @ replicate (length pages) (ListMetrics region req)"
proof (induction pages arbitrary: calls acc)
  case Nil
  then show ?case by simp
next
  case (Cons p ps)
  from Cons.prems obtain acc' where
    a: "metrics_loop (Metrics p) acc = Inr acc'" and
    b: "metrics_loop (concat (map Metrics ps)) acc' = Inr md"
    by (auto simp: metrics_loop_append split: sum.splits)
  show ?case
    using a Cons.IH [OF b] by (simp add: replicate_app_Cons_same)
qed

lemma statistics_loop_all:
  assumes "\<forall>(st, dims) \<in> set md.
             cloudwatch_get_metric_statistics s region
               (bucket_statistics_request dims start_time end_time period) = Inr (answer dims) \<and>
             (st \<in> set backup_storage_types \<longrightarrow> Datapoints (answer dims) \<noteq> [])"
  shows "statistics_loop s account region b start_time end_time period md calls acc =
           (calls @
            map (\<lambda>(st, dims). GetMetricStatistics region
                   (bucket_statistics_request dims start_time end_time period)) md,
            Inr (acc @
                 map (\<lambda>(st, dims).
                        \<lparr>account_id = account, region_name = region,
                         resource_key = b @ ''::'' @ st,
                         size_bytes = PyFloat (Average (hd (Datapoints (answer dims))))\<rparr>)
                   (filter (\<lambda>(st, dims). st \<in> set backup_storage_types) md)))"
  using assms
proof (induction md arbitrary: calls acc)
  case Nil
  then show ?case by simp
next
  case (Cons p md)
  obtain st dims where p: "p = (st, dims)" by (cases p)
  have ans: "cloudwatch_get_metric_statistics s region
               (bucket_statistics_request dims start_time end_time period) = Inr (answer dims)"
    using Cons.prems p by simp
  have rest: "\<forall>(st, dims) \<in> set md.
             cloudwatch_get_metric_statistics s region
               (bucket_statistics_request dims start_time end_time period) = Inr (answer dims) \<and>
             (st \<in> set backup_storage_types \<longrightarrow> Datapoints (answer dims) \<noteq> [])"
    using Cons.prems by simp
  show ?case
  proof (cases "st \<in> set backup_storage_types")
    case True
    then obtain d ds where d: "Datapoints (answer dims) = d # ds"
      using Cons.prems p by (cases "Datapoints (answer dims)") auto
    show ?thesis
      using True d ans p Cons.IH [OF rest] by (simp add: Let_def)
  next
    case False
    then show ?thesis
      using ans p Cons.IH [OF rest] by (simp add: Let_def)
  qed
qed

lemma statistics_loop_empty_datapoints:
  assumes "\<forall>(st, dims) \<in> set md.
             \<exists>resp. cloudwatch_get_metric_statistics s region
               (bucket_statistics_request dims start_time end_time period) = Inr resp"
    and "\<exists>(st, dims) \<in> set md.
           st \<in> set backup_storage_types \<and>
           (\<exists>resp. cloudwatch_get_metric_statistics s region
               (bucket_statistics_request dims start_time end_time period) = Inr resp \<and>
              Datapoints resp = [])"
  shows "snd (statistics_loop s account region b start_time end_time period md calls acc) =
           Inl IndexError"
  using assms
proof (induction md arbitrary: calls acc)
  case Nil
  then show ?case by simp
next
  case (Cons p md)
  obtain st dims where p: "p = (st, dims)" by (cases p)
  from Cons.prems(1) p obtain resp where
    ans: "cloudwatch_get_metric_statistics s region
               (bucket_statistics_request dims start_time end_time period) = Inr resp"
    by auto
  have rest: "\<forall>(st, dims) \<in> set md.
             \<exists>resp. cloudwatch_get_metric_statistics s region
               (bucket_statistics_request dims start_time end_time period) = Inr resp"
    using Cons.prems(1) by simp
  show ?case
  proof (cases "st \<in> set backup_storage_types \<and> Datapoints resp = []")
    case True
    then show ?thesis
      using ans p by (simp add: Let_def)
  next
    case False
    with Cons.prems(2) p ans have later: "\<exists>(st, dims) \<in> set md.
           st \<in> set backup_storage_types \<and>
           (\<exists>resp. cloudwatch_get_metric_statistics s region
               (bucket_statistics_request dims start_time end_time period) = Inr resp \<and>
              Datapoints resp = [])"
      by auto
    show ?thesis
      using False ans p Cons.IH [OF rest later]
      by (auto simp add: Let_def split: list.splits)
  qed
qed

lemma get_bucket_size_listed:
  assumes "bucket_validation s region b = Inr ()"
    and "cloudwatch_list_metrics s region (bucket_metrics_request b) = map Inr pages"
    and "metrics_loop (concat (map Metrics pages)) [] = Inr md"
  shows "get_bucket_size s now account region b =
           statistics_loop s account region b (now - days 2) now (days 2) md
             (GetBucketLocation region b #
              replicate (length pages) (ListMetrics region (bucket_metrics_request b))) []"
proof -
  have "pages_loop region (bucket_metrics_request b) (map Inr pages)
          [GetBucketLocation region b] [] =
        (GetBucketLocation region b #
           replicate (length pages) (ListMetrics region (bucket_metrics_request b)), Inr md)"
    using pages_loop_snd [of region "bucket_metrics_request b" pages "[GetBucketLocation region b]" "[]"]
      pages_loop_fst [OF assms(3), of region "bucket_metrics_request b" "[GetBucketLocation region b]"]
      assms(3)
    by (simp add: prod_eq_iff)
  then show ?thesis
    using assms(1,2) by (simp add: get_bucket_size_def Let_def)
qed

lemma get_bucket_size_unlisted:
  assumes "bucket_validation s region b = Inr ()"
    and "cloudwatch_list_metrics s region (bucket_metrics_request b) = map Inr pages"
    and "metrics_loop (concat (map Metrics pages)) [] = Inl e"
  shows "snd (get_bucket_size s now account region b) = Inl IndexError"
proof -
  have "snd (pages_loop region (bucket_metrics_request b) (map Inr pages)
          [GetBucketLocation region b] []) = Inl IndexError"
    using pages_loop_snd [of region "bucket_metrics_request b" pages "[GetBucketLocation region b]" "[]"]
      assms(3) metrics_loop_error [OF assms(3)] by simp
  then show ?thesis
    using assms(1,2) by (auto simp add: get_bucket_size_def split: prod.splits sum.splits)
qed

text \<open>
  C6. In the validation phase of \<open>get_bucket_size\<close>, a location constraint that is
  absent or empty is normalised to \<open>us-east-1\<close> before the comparison (any other
  value is kept), and validation passes exactly when the normalised region equals the
  target region: a target of \<open>us-east-1\<close> passes against such a bucket, and a declared
  region that differs from the target makes the lookup fail.
\<close>

theorem bucket_region_normalised:
  assumes "s3_get_bucket_location s region b = Inr resp"
  shows "(LocationConstraint resp = None \<or> LocationConstraint resp = Some [] \<longrightarrow>
            location_constraint resp = ''us-east-1'') \<and>
         (\<forall>l. LocationConstraint resp = Some l \<and> l \<noteq> [] \<longrightarrow> location_constraint resp = l) \<and>
         ((bucket_validation s region b = Inr ()) = (location_constraint resp = region)) \<and>
         ((LocationConstraint resp = None \<or> LocationConstraint resp = Some []) \<and>
          region = ''us-east-1'' \<longrightarrow> bucket_validation s region b = Inr ()) \<and>
         (location_constraint resp \<noteq> region \<longrightarrow>
            snd (get_bucket_size s now account region b) =
              Inl (Exception
                    (''Bucket '' @ b @ '' was not found in Region '' @ region @
                     '' or credentials are invalid. Inner exception '' @
                     ''Bucket '' @ b @ '' is not in Region '' @ region)))"
proof -
  have norm: "LocationConstraint resp = None \<or> LocationConstraint resp = Some [] \<longrightarrow>
      location_constraint resp = ''us-east-1''"
    by (auto simp: location_constraint_def)
  have keep: "\<forall>l. LocationConstraint resp = Some l \<and> l \<noteq> [] \<longrightarrow> location_constraint resp = l"
    by (auto simp: location_constraint_def)
  have iff: "(bucket_validation s region b = Inr ()) = (location_constraint resp = region)"
    using bucket_validation_answered [OF assms] by simp
  have fail: "location_constraint resp \<noteq> region \<longrightarrow>
            snd (get_bucket_size s now account region b) =
              Inl (Exception
                    (''Bucket '' @ b @ '' was not found in Region '' @ region @
                     '' or credentials are invalid. Inner exception '' @
                     ''Bucket '' @ b @ '' is not in Region '' @ region))"
  proof
    assume "location_constraint resp \<noteq> region"
    then have "bucket_validation s region b =
              Inl (Exception
                    (''Bucket '' @ b @ '' was not found in Region '' @ region @
                     '' or credentials are invalid. Inner exception '' @
                     ''Bucket '' @ b @ '' is not in Region '' @ region))"
      using bucket_validation_answered [OF assms] by simp
    from get_bucket_size_invalid [OF this] show "snd (get_bucket_size s now account region b) =
              Inl (Exception
                    (''Bucket '' @ b @ '' was not found in Region '' @ region @
                     '' or credentials are invalid. Inner exception '' @
                     ''Bucket '' @ b @ '' is not in Region '' @ region))"
      by simp
  qed
  have pass: "(LocationConstraint resp = None \<or> LocationConstraint resp = Some []) \<and>
          region = ''us-east-1'' \<longrightarrow> bucket_validation s region b = Inr ()"
    using norm iff by blast
  from norm keep iff pass fail show ?thesis by (intro conjI)
qed

theorem bucket_region_normalised_witness:
  "bucket_validation default_region_session ''us-east-1'' ''b1'' = Inr () \<and>
   bucket_validation default_region_session ''eu-west-1'' ''b1'' \<noteq> Inr () \<and>
   bucket_validation ireland_session ''eu-west-1'' ''b1'' = Inr () \<and>
   snd (get_bucket_size ireland_session 0 ''acct'' ''us-east-1'' ''b1'') =
     Inl (Exception ''Bucket b1 was not found in Region us-east-1 or credentials are invalid. Inner exception Bucket b1 is not in Region us-east-1'')"
proof -
  have d: "\<And>r. s3_get_bucket_location default_region_session r ''b1'' =
      Inr \<lparr>LocationConstraint = None\<rparr>"
    by (simp add: default_region_session_def offline_session_def)
  have i: "\<And>r. s3_get_bucket_location ireland_session r ''b1'' =
      Inr \<lparr>LocationConstraint = Some ''eu-west-1''\<rparr>"
    by (simp add: ireland_session_def offline_session_def)
  show ?thesis
    using bucket_region_normalised [OF d, of "''us-east-1''" 0 "''acct''"]
      bucket_region_normalised [OF d, of "''eu-west-1''" 0 "''acct''"]
      bucket_region_normalised [OF i, of "''eu-west-1''" 0 "''acct''"]
      bucket_region_normalised [OF i, of "''us-east-1''" 0 "''acct''"]
    by simp
qed

text \<open>
  C7. Every failure of the validation phase of \<open>get_bucket_size\<close>, whether the
  provider call raised (nonexistent bucket, invalid credentials) or the source raised
  its own region-mismatch error, is re-raised as the one
  \<open>was not found in Region ... or credentials are invalid\<close> error, whose message ends
  with the \<^verbatim>\<open>str()\<close> of the original exception; the lookup stops there, after the
  location call alone.
\<close>

theorem bucket_validation_failures_wrapped:
  "(\<forall>m. s3_get_bucket_location s region b = Inl m \<longrightarrow>
      bucket_validation s region b =
        Inl (Exception
              (''Bucket '' @ b @ '' was not found in Region '' @ region @
               '' or credentials are invalid. Inner exception '' @ str_exn (ClientError m)))) \<and>
   (\<forall>resp. s3_get_bucket_location s region b = Inr resp \<and> location_constraint resp \<noteq> region \<longrightarrow>
      bucket_validation s region b =
        Inl (Exception
              (''Bucket '' @ b @ '' was not found in Region '' @ region @
               '' or credentials are invalid. Inner exception '' @
               str_exn (Exception (''Bucket '' @ b @ '' is not in Region '' @ region))))) \<and>
   (\<forall>e. bucket_validation s region b = Inl e \<longrightarrow>
      get_bucket_size s now account region b = ([GetBucketLocation region b], Inl e) \<and>
      (\<exists>inner.
         ((\<exists>m. s3_get_bucket_location s region b = Inl m \<and> inner = ClientError m) \<or>
          (\<exists>resp. s3_get_bucket_location s region b = Inr resp \<and>
                  location_constraint resp \<noteq> region \<and>
                  inner = Exception (''Bucket '' @ b @ '' is not in Region '' @ region))) \<and>
         e = Exception
               (''Bucket '' @ b @ '' was not found in Region '' @ region @
                '' or credentials are invalid. Inner exception '' @ str_exn inner)))"
proof (cases "s3_get_bucket_location s region b")
  case (Inl m)
  then show ?thesis
    using bucket_validation_raised [OF Inl] get_bucket_size_invalid [of s region b]
    by auto
next
  case (Inr resp)
  then show ?thesis
    using bucket_validation_answered [OF Inr] get_bucket_size_invalid [of s region b]
    by (auto split: if_splits)
qed

theorem bucket_validation_failures_wrapped_witness:
  "get_bucket_size offline_session 0 ''acct'' ''us-east-1'' ''b1'' =
     ([GetBucketLocation ''us-east-1'' ''b1''],
      Inl (Exception ''Bucket b1 was not found in Region us-east-1 or credentials are invalid. Inner exception offline'')) \<and>
   get_bucket_size ireland_session 0 ''acct'' ''us-east-1'' ''b1'' =
     ([GetBucketLocation ''us-east-1'' ''b1''],
      Inl (Exception ''Bucket b1 was not found in Region us-east-1 or credentials are invalid. Inner exception Bucket b1 is not in Region us-east-1''))"
proof -
  have o: "s3_get_bucket_location offline_session ''us-east-1'' ''b1'' = Inl ''offline''"
    by (simp add: offline_session_def)
  have i: "s3_get_bucket_location ireland_session ''us-east-1'' ''b1'' =
      Inr \<lparr>LocationConstraint = Some ''eu-west-1''\<rparr> \<and>
      location_constraint \<lparr>LocationConstraint = Some ''eu-west-1''\<rparr> \<noteq> ''us-east-1''"
    by (simp add: ireland_session_def offline_session_def location_constraint_def)
  note t1 = bucket_validation_failures_wrapped
    [of offline_session "''us-east-1''" "''b1''" 0 "''acct''"]
  note t2 = bucket_validation_failures_wrapped
    [of ireland_session "''us-east-1''" "''b1''" 0 "''acct''"]
  from t1 [THEN conjunct1, THEN spec, THEN mp, OF o]
  have v1: "bucket_validation offline_session ''us-east-1'' ''b1'' =
      Inl (Exception ''Bucket b1 was not found in Region us-east-1 or credentials are invalid. Inner exception offline'')"
    by simp
  from t2 [THEN conjunct2, THEN conjunct1, THEN spec, THEN mp, OF i]
  have v2: "bucket_validation ireland_session ''us-east-1'' ''b1'' =
      Inl (Exception ''Bucket b1 was not found in Region us-east-1 or credentials are invalid. Inner exception Bucket b1 is not in Region us-east-1'')"
    by simp
  from t1 [THEN conjunct2, THEN conjunct2, THEN spec, THEN mp, OF v1, THEN conjunct1]
    t2 [THEN conjunct2, THEN conjunct2, THEN spec, THEN mp, OF v2, THEN conjunct1]
  show ?thesis by (intro conjI)
qed

lemma records_per_storage_class:
  "length (filter (\<lambda>r. resource_key r = b @ ''::'' @ st)
             (map (\<lambda>m. \<lparr>account_id = account, region_name = region,
                         resource_key = b @ ''::'' @ f m, size_bytes = g m\<rparr>)
                (filter (\<lambda>m. f m \<in> A) ms))) =
     (if st \<in> A then count_list (map f ms) st else 0)"
  by (induction ms) auto

lemma bucket_statistics_request_window:
  "bucket_statistics_request dimensions (now - days 2) now (days 2) =
     \<lparr>ms_Namespace = ''AWS/S3'', ms_MetricName = ''BucketSizeBytes'',
      ms_Dimensions = dimensions,
      ms_StartTime = now - 2 * 24 * 60 * 60 * 1000000, ms_EndTime = now,
      ms_Statistics = [''Average''], ms_Period = 2 * 24 * 60 * 60, ms_Unit = ''Bytes''\<rparr>"
  by (simp add: bucket_statistics_request_def period_2_days)

lemma get_bucket_size_answered:
  assumes "bucket_validation s region b = Inr ()"
    and "cloudwatch_list_metrics s region (bucket_metrics_request b) = map Inr pages"
    and "listing = concat (map Metrics pages)"
    and "\<forall>m \<in> set listing. storage_type_values m \<noteq> []"
    and "\<forall>m \<in> set listing.
           cloudwatch_get_metric_statistics s region
             (bucket_statistics_request (Dimensions m) (now - days 2) now (days 2)) =
             Inr (answer (Dimensions m))"
    and "\<forall>m \<in> set listing.
           hd (storage_type_values m) \<in> set backup_storage_types \<longrightarrow>
           Datapoints (answer (Dimensions m)) \<noteq> []"
  shows "get_bucket_size s now account region b =
           (GetBucketLocation region b #
            replicate (length pages) (ListMetrics region (bucket_metrics_request b)) @
            map (\<lambda>m. GetMetricStatistics region
                   (bucket_statistics_request (Dimensions m) (now - days 2) now (days 2)))
              listing,
            Inr (map (\<lambda>m. \<lparr>account_id = account, region_name = region,
                            resource_key = b @ ''::'' @ hd (storage_type_values m),
                            size_bytes =
                              PyFloat (Average (hd (Datapoints (answer (Dimensions m)))))\<rparr>)
                   (filter (\<lambda>m. hd (storage_type_values m) \<in> set backup_storage_types)
                      listing)))"
proof -
  let ?md = "map (\<lambda>m. (hd (storage_type_values m), Dimensions m)) listing"
  have md: "metrics_loop (concat (map Metrics pages)) [] = Inr ?md"
    using metrics_loop_all [of listing "[]"] assms(3,4) by simp
  have ans: "\<forall>(st, dims) \<in> set ?md.
             cloudwatch_get_metric_statistics s region
               (bucket_statistics_request dims (now - days 2) now (days 2)) = Inr (answer dims) \<and>
             (st \<in> set backup_storage_types \<longrightarrow> Datapoints (answer dims) \<noteq> [])"
    using assms(5,6) by auto
  show ?thesis
    unfolding get_bucket_size_listed [OF assms(1,2) md] statistics_loop_all [OF ans]
    by (simp add: comp_def filter_map)
qed

lemma bucket_listing:
  "concat (map Metrics bucket_pages) =
     [\<lparr>Dimensions = bucket_dimensions ''StandardStorage''\<rparr>,
      \<lparr>Dimensions = bucket_dimensions ''GlacierStorage''\<rparr>,
      \<lparr>Dimensions = bucket_dimensions ''StandardIAStorage''\<rparr>]"
  by (simp add: bucket_pages_def)

lemma bucket_storage_type_values:
  "storage_type_values \<lparr>Dimensions = bucket_dimensions st\<rparr> = [st]"
  by (simp add: storage_type_values_def bucket_dimensions_def)

lemma bucket_session_valid:
  "bucket_validation bucket_session ''us-east-1'' ''b1'' = Inr ()"
  by (simp add: bucket_validation_def bucket_session_def offline_session_def
        location_constraint_def)

lemma bucket_answers:
  "bucket_answer (bucket_dimensions ''StandardStorage'') =
     \<lparr>Datapoints = [\<lparr>Timestamp = 200, Maximum = 0, Average = 2001 / 2\<rparr>,
                    \<lparr>Timestamp = 100, Maximum = 0, Average = 7\<rparr>]\<rparr>"
  "bucket_answer (bucket_dimensions ''StandardIAStorage'') =
     \<lparr>Datapoints = [\<lparr>Timestamp = 100, Maximum = 0, Average = 2048\<rparr>]\<rparr>"
  "bucket_answer (bucket_dimensions ''GlacierStorage'') = \<lparr>Datapoints = []\<rparr>"
  by (simp_all add: bucket_answer_def bucket_dimensions_def)

lemma allowed_classes:
  "''StandardStorage'' \<in> set backup_storage_types"
  "''StandardIAStorage'' \<in> set backup_storage_types"
  "''GlacierStorage'' \<notin> set backup_storage_types"
  by (simp_all add: backup_storage_types_def)

text \<open>
  C9. When validation passes, the listing is fetched and every statistics query is
  answered, a listed metric whose storage class is in the allow-list and whose answer
  has zero datapoints makes \<open>get_bucket_size\<close> fail with an index error: datapoint
  0 is read with no emptiness check.
\<close>

theorem bucket_empty_datapoints_index_error:
  assumes "bucket_validation s region b = Inr ()"
    and "cloudwatch_list_metrics s region (bucket_metrics_request b) = map Inr pages"
    and "listing = concat (map Metrics pages)"
    and "\<forall>m \<in> set listing.
           \<exists>resp. cloudwatch_get_metric_statistics s region
             (bucket_statistics_request (Dimensions m) (now - days 2) now (days 2)) = Inr resp"
    and "m \<in> set listing"
    and "storage_type_values m = st # others"
    and "st \<in> set backup_storage_types"
    and "cloudwatch_get_metric_statistics s region
           (bucket_statistics_request (Dimensions m) (now - days 2) now (days 2)) = Inr resp"
    and "Datapoints resp = []"
  shows "snd (get_bucket_size s now account region b) = Inl IndexError"
proof (cases "\<forall>m \<in> set listing. storage_type_values m \<noteq> []")
  case False
  then have "metrics_loop (concat (map Metrics pages)) [] = Inl IndexError"
    using metrics_loop_missing [of listing "[]"] assms(3) by simp
  from get_bucket_size_unlisted [OF assms(1,2) this] show ?thesis .
next
  case True
  let ?md = "map (\<lambda>m. (hd (storage_type_values m), Dimensions m)) listing"
  have md: "metrics_loop (concat (map Metrics pages)) [] = Inr ?md"
    using metrics_loop_all [of listing "[]"] assms(3) True by simp
  have all: "\<forall>(st, dims) \<in> set ?md.
             \<exists>resp. cloudwatch_get_metric_statistics s region
               (bucket_statistics_request dims (now - days 2) now (days 2)) = Inr resp"
    using assms(4) by auto
  have "(st, Dimensions m) \<in> set ?md"
    using assms(5,6) by force
  then have one: "\<exists>(st, dims) \<in> set ?md.
           st \<in> set backup_storage_types \<and>
           (\<exists>resp. cloudwatch_get_metric_statistics s region
               (bucket_statistics_request dims (now - days 2) now (days 2)) = Inr resp \<and>
              Datapoints resp = [])"
    using assms(7,8,9) by blast
  show ?thesis
    unfolding get_bucket_size_listed [OF assms(1,2) md]
    by (rule statistics_loop_empty_datapoints [OF all one])
qed

theorem bucket_empty_datapoints_index_error_witness:
  "snd (get_bucket_size bucket_gap_session 0 ''acct'' ''us-east-1'' ''b1'') = Inl IndexError"
proof -
  have h1: "bucket_validation bucket_gap_session ''us-east-1'' ''b1'' = Inr ()"
    by (simp add: bucket_validation_def bucket_gap_session_def bucket_session_def
          offline_session_def location_constraint_def)
  have h2: "cloudwatch_list_metrics bucket_gap_session ''us-east-1''
      (bucket_metrics_request ''b1'') = map Inr bucket_pages"
    by (simp add: bucket_gap_session_def bucket_session_def offline_session_def
          bucket_listing_request_def bucket_metrics_request_def)
  have h4: "\<forall>m \<in> set (concat (map Metrics bucket_pages)).
           \<exists>resp. cloudwatch_get_metric_statistics bucket_gap_session ''us-east-1''
             (bucket_statistics_request (Dimensions m) (0 - days 2) 0 (days 2)) = Inr resp"
    by (simp add: bucket_gap_session_def)
  have h5: "\<lparr>Dimensions = bucket_dimensions ''StandardIAStorage''\<rparr>
      \<in> set (concat (map Metrics bucket_pages))"
    by (simp add: bucket_listing)
  have h6: "storage_type_values \<lparr>Dimensions = bucket_dimensions ''StandardIAStorage''\<rparr> =
      ''StandardIAStorage'' # []"
    by (simp add: bucket_storage_type_values)
  have h8: "cloudwatch_get_metric_statistics bucket_gap_session ''us-east-1''
           (bucket_statistics_request
              (Dimensions \<lparr>Dimensions = bucket_dimensions ''StandardIAStorage''\<rparr>)
              (0 - days 2) 0 (days 2)) = Inr \<lparr>Datapoints = []\<rparr>"
    by (simp add: bucket_gap_session_def bucket_statistics_request_def)
  have h9: "Datapoints \<lparr>Datapoints = []\<rparr> = []"
    by simp
  from bucket_empty_datapoints_index_error
    [OF h1 h2 refl h4 h5 h6 allowed_classes(2) h8 h9, of "''acct''"]
  show ?thesis .
qed

lemma storage_type_values_filter:
  "storage_type_values m =
     map dim_Value (filter (\<lambda>d. dim_Name d = ''StorageType'') (Dimensions m))"
proof -
  have "\<And>ds. concat (map (\<lambda>d. if dim_Name d = ''StorageType'' then [dim_Value d] else []) ds) =
      map dim_Value (filter (\<lambda>d. dim_Name d = ''StorageType'') ds)"
    subgoal for ds by (induction ds) simp_all
    done
  then show ?thesis
    by (simp add: storage_type_values_def)
qed

lemma storage_type_values_first:
  assumes "Dimensions m = pre @ \<lparr>dim_Name = ''StorageType'', dim_Value = c\<rparr> # post"
    and "\<forall>d \<in> set pre. dim_Name d \<noteq> ''StorageType''"
  shows "storage_type_values m \<noteq> [] \<and> hd (storage_type_values m) = c"
proof -
  have "filter (\<lambda>d. dim_Name d = ''StorageType'') pre = []"
    using assms(2) by (simp add: filter_empty_conv)
  then show ?thesis
    unfolding storage_type_values_filter assms(1) by simp
qed

lemma count_list_distinct:
  "distinct xs \<Longrightarrow> count_list xs x = (if x \<in> set xs then 1 else 0)"
  by (induction xs) auto

lemma backup_storage_types_names:
  "backup_storage_types =
     [''StandardStorage'', ''StandardIAStorage'', ''OneZoneIAStorage'',
      ''GlacierInstantRetrievalStorage'', ''IntelligentTieringFAStorage'',
      ''IntelligentTieringIAStorage'', ''IntelligentTieringAAStorage'',
      ''IntelligentTieringAIAStorage'', ''IntelligentTieringDAAStorage'']"
  by (simp add: backup_storage_types_def)

lemma bucket_validation_passes:
  assumes "s3_get_bucket_location s region b = Inr lresp"
    and "LocationConstraint lresp = Some region \<and> region \<noteq> [] \<or>
         (LocationConstraint lresp = None \<or> LocationConstraint lresp = Some []) \<and>
         region = ''us-east-1''"
  shows "bucket_validation s region b = Inr ()"
  using bucket_validation_answered [OF assms(1)] assms(2)
  by (auto simp: location_constraint_def)

lemma bucket_metrics_request_explicit:
  "bucket_metrics_request b =
     \<lparr>lm_Namespace = ''AWS/S3'', lm_MetricName = ''BucketSizeBytes'',
      lm_Dimensions = [\<lparr>dim_Name = ''BucketName'', dim_Value = b\<rparr>]\<rparr>"
  by (simp add: bucket_metrics_request_def)

text \<open>
  C8, as the code has it. When the bucket is in the target region, the listing of its
  \<open>BucketSizeBytes\<close> metrics is fetched, every listed metric has a \<open>StorageType\<close>
  dimension (the first such gives its class), every two-day average query is answered
  and the answers for allow-listed classes have a datapoint, \<open>get_bucket_size\<close>
  returns, in listing order, one record for each listed metric whose storage class is
  one of the nine allow-listed names: keyed \<open>bucket_name::storage_type\<close>, with the
  \<open>Average\<close> of datapoint 0 of the answer, unconverted. The number of records of a
  storage class is the number of listed metrics of that class if it is allow-listed
  and zero otherwise, as for \<open>GlacierStorage\<close>; it is exactly one for an allow-listed
  class of the listing when no class is listed twice.
\<close>

theorem bucket_one_record_per_allowed_metric:
  assumes "s3_get_bucket_location s region b = Inr lresp"
    and "LocationConstraint lresp = Some region \<and> region \<noteq> [] \<or>
         (LocationConstraint lresp = None \<or> LocationConstraint lresp = Some []) \<and>
         region = ''us-east-1''"
    and "cloudwatch_list_metrics s region
           \<lparr>lm_Namespace = ''AWS/S3'', lm_MetricName = ''BucketSizeBytes'',
            lm_Dimensions = [\<lparr>dim_Name = ''BucketName'', dim_Value = b\<rparr>]\<rparr> = map Inr pages"
    and "listing = concat (map Metrics pages)"
    and "\<forall>m \<in> set listing.
           \<exists>pre post.
             Dimensions m = pre @ \<lparr>dim_Name = ''StorageType'', dim_Value = cls m\<rparr> # post \<and>
             (\<forall>d \<in> set pre. dim_Name d \<noteq> ''StorageType'')"
    and "\<forall>m \<in> set listing.
           cloudwatch_get_metric_statistics s region
             \<lparr>ms_Namespace = ''AWS/S3'', ms_MetricName = ''BucketSizeBytes'',
              ms_Dimensions = Dimensions m,
              ms_StartTime = now - 2 * 24 * 60 * 60 * 1000000, ms_EndTime = now,
              ms_Statistics = [''Average''], ms_Period = 2 * 24 * 60 * 60,
              ms_Unit = ''Bytes''\<rparr> = Inr (answer (Dimensions m))"
    and "allowed =
           [''StandardStorage'', ''StandardIAStorage'', ''OneZoneIAStorage'',
            ''GlacierInstantRetrievalStorage'', ''IntelligentTieringFAStorage'',
            ''IntelligentTieringIAStorage'', ''IntelligentTieringAAStorage'',
            ''IntelligentTieringAIAStorage'', ''IntelligentTieringDAAStorage'']"
    and "\<forall>m \<in> set listing.
           cls m \<in> set allowed \<longrightarrow> Datapoints (answer (Dimensions m)) \<noteq> []"
  shows "\<exists>records.
           snd (get_bucket_size s now account region b) = Inr records \<and>
           records =
             map (\<lambda>m. \<lparr>account_id = account, region_name = region,
                        resource_key = b @ ''::'' @ cls m,
                        size_bytes =
                          PyFloat (Average (hd (Datapoints (answer (Dimensions m)))))\<rparr>)
               (filter (\<lambda>m. cls m \<in> set allowed) listing) \<and>
           (\<forall>st. length (filter (\<lambda>r. resource_key r = b @ ''::'' @ st) records) =
                   (if st \<in> set allowed then count_list (map cls listing) st else 0)) \<and>
           (distinct (map cls listing) \<longrightarrow>
              (\<forall>st. length (filter (\<lambda>r. resource_key r = b @ ''::'' @ st) records) =
                      (if st \<in> set allowed \<and> st \<in> cls ` set listing then 1 else 0))) \<and>
           length (filter (\<lambda>r. resource_key r = b @ ''::GlacierStorage'') records) = 0"
proof -
  let ?records = "map (\<lambda>m. \<lparr>account_id = account, region_name = region,
                        resource_key = b @ ''::'' @ cls m,
                        size_bytes =
                          PyFloat (Average (hd (Datapoints (answer (Dimensions m)))))\<rparr>)
               (filter (\<lambda>m. cls m \<in> set allowed) listing)"
  have allowed: "backup_storage_types = allowed"
    unfolding assms(7) by (rule backup_storage_types_names)
  have valid: "bucket_validation s region b = Inr ()"
    using assms(1,2) by (rule bucket_validation_passes)
  have pages: "cloudwatch_list_metrics s region (bucket_metrics_request b) = map Inr pages"
    unfolding bucket_metrics_request_explicit by (rule assms(3))
  have stv: "\<forall>m \<in> set listing. storage_type_values m \<noteq> [] \<and> hd (storage_type_values m) = cls m"
    using assms(5) storage_type_values_first by blast
  then have ne: "\<forall>m \<in> set listing. storage_type_values m \<noteq> []"
    by blast
  have ans: "\<forall>m \<in> set listing.
           cloudwatch_get_metric_statistics s region
             (bucket_statistics_request (Dimensions m) (now - days 2) now (days 2)) =
             Inr (answer (Dimensions m))"
    unfolding bucket_statistics_request_window by (rule assms(6))
  have pts: "\<forall>m \<in> set listing.
           hd (storage_type_values m) \<in> set backup_storage_types \<longrightarrow>
           Datapoints (answer (Dimensions m)) \<noteq> []"
    using assms(8) stv allowed by simp
  have flt: "filter (\<lambda>m. hd (storage_type_values m) \<in> set backup_storage_types) listing =
      filter (\<lambda>m. cls m \<in> set allowed) listing"
    using stv allowed by (auto intro: filter_cong)
  have "snd (get_bucket_size s now account region b) =
      Inr (map (\<lambda>m. \<lparr>account_id = account, region_name = region,
                            resource_key = b @ ''::'' @ hd (storage_type_values m),
                            size_bytes =
                              PyFloat (Average (hd (Datapoints (answer (Dimensions m)))))\<rparr>)
                   (filter (\<lambda>m. cls m \<in> set allowed) listing))"
    using get_bucket_size_answered [OF valid pages assms(4) ne ans pts, of account]
    by (simp add: flt)
  also have "map (\<lambda>m. \<lparr>account_id = account, region_name = region,
                            resource_key = b @ ''::'' @ hd (storage_type_values m),
                            size_bytes =
                              PyFloat (Average (hd (Datapoints (answer (Dimensions m)))))\<rparr>)
                   (filter (\<lambda>m. cls m \<in> set allowed) listing) = ?records"
    using stv by (auto intro: map_cong)
  finally have res: "snd (get_bucket_size s now account region b) = Inr ?records" .
  have per: "\<And>st. length (filter (\<lambda>r. resource_key r = b @ ''::'' @ st) ?records) =
                   (if st \<in> set allowed then count_list (map cls listing) st else 0)"
    by (rule records_per_storage_class)
  have one: "distinct (map cls listing) \<longrightarrow>
              (\<forall>st. length (filter (\<lambda>r. resource_key r = b @ ''::'' @ st) ?records) =
                      (if st \<in> set allowed \<and> st \<in> cls ` set listing then 1 else 0))"
    unfolding per by (simp add: count_list_distinct)
  have glacier: "''GlacierStorage'' \<notin> set allowed"
    unfolding assms(7) by simp
  have none: "length (filter (\<lambda>r. resource_key r = b @ ''::GlacierStorage'') ?records) = 0"
    using per [of "''GlacierStorage''"] glacier by simp
  from res per one none show ?thesis by blast
qed

lemma bucket_dimensions_split:
  "\<exists>pre post.
     bucket_dimensions st = pre @ \<lparr>dim_Name = ''StorageType'', dim_Value = st\<rparr> # post \<and>
     (\<forall>d \<in> set pre. dim_Name d \<noteq> ''StorageType'')"
  unfolding bucket_dimensions_def
  by (rule exI [of _ "[\<lparr>dim_Name = ''BucketName'', dim_Value = ''b1''\<rparr>]"], rule exI [of _ "[]"])
     simp

lemma bucket_dimensions_last:
  "dim_Value (last (bucket_dimensions st)) = st"
  by (simp add: bucket_dimensions_def)

lemma bucket_session_located:
  "s3_get_bucket_location bucket_session region ''b1'' = Inr \<lparr>LocationConstraint = None\<rparr>"
  by (simp add: bucket_session_def offline_session_def)

lemma bucket_session_listed:
  "cloudwatch_list_metrics bucket_session ''us-east-1''
     \<lparr>lm_Namespace = ''AWS/S3'', lm_MetricName = ''BucketSizeBytes'',
      lm_Dimensions = [\<lparr>dim_Name = ''BucketName'', dim_Value = ''b1''\<rparr>]\<rparr> = map Inr bucket_pages"
  by (simp add: bucket_session_def offline_session_def bucket_listing_request_def)

lemma bucket_session_answered:
  "cloudwatch_get_metric_statistics bucket_session ''us-east-1''
     \<lparr>ms_Namespace = ''AWS/S3'', ms_MetricName = ''BucketSizeBytes'',
      ms_Dimensions = dimensions,
      ms_StartTime = 0 - 2 * 24 * 60 * 60 * 1000000, ms_EndTime = 0,
      ms_Statistics = [''Average''], ms_Period = 2 * 24 * 60 * 60,
      ms_Unit = ''Bytes''\<rparr> = Inr (bucket_answer dimensions)"
  by (simp add: bucket_session_def offline_session_def bucket_average_request_def)

theorem bucket_one_record_per_allowed_metric_witness:
  "snd (get_bucket_size bucket_session 0 ''acct'' ''us-east-1'' ''b1'') =
     Inr [\<lparr>account_id = ''acct'', region_name = ''us-east-1'',
           resource_key = ''b1::StandardStorage'', size_bytes = PyFloat (2001 / 2)\<rparr>,
          \<lparr>account_id = ''acct'', region_name = ''us-east-1'',
           resource_key = ''b1::StandardIAStorage'', size_bytes = PyFloat 2048\<rparr>]"
proof -
  let ?cls = "\<lambda>m :: metric. dim_Value (last (Dimensions m))"
  let ?allowed = "[''StandardStorage'', ''StandardIAStorage'', ''OneZoneIAStorage'',
            ''GlacierInstantRetrievalStorage'', ''IntelligentTieringFAStorage'',
            ''IntelligentTieringIAStorage'', ''IntelligentTieringAAStorage'',
            ''IntelligentTieringAIAStorage'', ''IntelligentTieringDAAStorage'']"
  have h2: "LocationConstraint \<lparr>LocationConstraint = None\<rparr> = Some ''us-east-1'' \<and>
         ''us-east-1'' \<noteq> [] \<or>
         (LocationConstraint \<lparr>LocationConstraint = None\<rparr> = None \<or>
          LocationConstraint \<lparr>LocationConstraint = None\<rparr> = Some []) \<and>
         ''us-east-1'' = ''us-east-1''"
    by simp
  have h5: "\<forall>m \<in> set (concat (map Metrics bucket_pages)).
           \<exists>pre post.
             Dimensions m = pre @ \<lparr>dim_Name = ''StorageType'', dim_Value = ?cls m\<rparr> # post \<and>
             (\<forall>d \<in> set pre. dim_Name d \<noteq> ''StorageType'')"
    using bucket_dimensions_split [of "''StandardStorage''"]
      bucket_dimensions_split [of "''GlacierStorage''"]
      bucket_dimensions_split [of "''StandardIAStorage''"]
    by (simp add: bucket_listing bucket_dimensions_last)
  have h6: "\<forall>m \<in> set (concat (map Metrics bucket_pages)).
           cloudwatch_get_metric_statistics bucket_session ''us-east-1''
             \<lparr>ms_Namespace = ''AWS/S3'', ms_MetricName = ''BucketSizeBytes'',
              ms_Dimensions = Dimensions m,
              ms_StartTime = 0 - 2 * 24 * 60 * 60 * 1000000, ms_EndTime = 0,
              ms_Statistics = [''Average''], ms_Period = 2 * 24 * 60 * 60,
              ms_Unit = ''Bytes''\<rparr> = Inr (bucket_answer (Dimensions m))"
    using bucket_session_answered by blast
  have h8: "\<forall>m \<in> set (concat (map Metrics bucket_pages)).
           ?cls m \<in> set ?allowed \<longrightarrow> Datapoints (bucket_answer (Dimensions m)) \<noteq> []"
    by (simp add: bucket_listing bucket_dimensions_last bucket_answers)
  from bucket_one_record_per_allowed_metric
    [OF bucket_session_located h2 bucket_session_listed refl h5 h6 refl h8, of "''acct''"]
  have "snd (get_bucket_size bucket_session 0 ''acct'' ''us-east-1'' ''b1'') =
      Inr (map (\<lambda>m. \<lparr>account_id = ''acct'', region_name = ''us-east-1'',
                        resource_key = ''b1'' @ ''::'' @ ?cls m,
                        size_bytes =
                          PyFloat (Average (hd (Datapoints (bucket_answer (Dimensions m)))))\<rparr>)
               (filter (\<lambda>m. ?cls m \<in> set ?allowed) (concat (map Metrics bucket_pages))))"
    by blast
  then show ?thesis
    by (simp add: bucket_listing bucket_dimensions_last bucket_answers)
qed

text \<open>
  A listing with two metrics of class \<open>StandardStorage\<close>: two records with the same
  key are returned for the one storage class.
\<close>

theorem bucket_one_record_per_class_counterexample:
  "cloudwatch_list_metrics bucket_twin_session ''us-east-1''
     \<lparr>lm_Namespace = ''AWS/S3'', lm_MetricName = ''BucketSizeBytes'',
      lm_Dimensions = [\<lparr>dim_Name = ''BucketName'', dim_Value = ''b1''\<rparr>]\<rparr> =
     [Inr \<lparr>Metrics =
        [\<lparr>Dimensions = [\<lparr>dim_Name = ''BucketName'', dim_Value = ''b1''\<rparr>,
                        \<lparr>dim_Name = ''StorageType'', dim_Value = ''StandardStorage''\<rparr>]\<rparr>,
         \<lparr>Dimensions = [\<lparr>dim_Name = ''BucketName'', dim_Value = ''b1''\<rparr>,
                        \<lparr>dim_Name = ''StorageType'', dim_Value = ''StandardStorage''\<rparr>]\<rparr>]\<rparr>] \<and>
   snd (get_bucket_size bucket_twin_session 0 ''acct'' ''us-east-1'' ''b1'') =
     Inr [\<lparr>account_id = ''acct'', region_name = ''us-east-1'',
           resource_key = ''b1::StandardStorage'', size_bytes = PyFloat (2001 / 2)\<rparr>,
          \<lparr>account_id = ''acct'', region_name = ''us-east-1'',
           resource_key = ''b1::StandardStorage'', size_bytes = PyFloat (2001 / 2)\<rparr>]"
proof -
  let ?pages = "[\<lparr>Metrics = [\<lparr>Dimensions = bucket_dimensions ''StandardStorage''\<rparr>,
                             \<lparr>Dimensions = bucket_dimensions ''StandardStorage''\<rparr>]\<rparr>]"
  have l: "cloudwatch_list_metrics bucket_twin_session ''us-east-1'' (bucket_metrics_request ''b1'') =
      map Inr ?pages"
    by (simp add: bucket_twin_session_def bucket_listing_request_def bucket_metrics_request_def)
  have v: "bucket_validation bucket_twin_session ''us-east-1'' ''b1'' = Inr ()"
    by (simp add: bucket_validation_def bucket_twin_session_def bucket_session_def
          offline_session_def location_constraint_def)
  have n: "\<forall>m \<in> set (concat (map Metrics ?pages)). storage_type_values m \<noteq> []"
    by (simp add: bucket_storage_type_values)
  have a: "\<forall>m \<in> set (concat (map Metrics ?pages)).
           cloudwatch_get_metric_statistics bucket_twin_session ''us-east-1''
             (bucket_statistics_request (Dimensions m) (0 - days 2) 0 (days 2)) =
             Inr (bucket_answer (Dimensions m))"
    by (simp add: bucket_twin_session_def bucket_session_def offline_session_def
          bucket_statistics_request_def bucket_average_request_def period_2_days)
  have p: "\<forall>m \<in> set (concat (map Metrics ?pages)).
           hd (storage_type_values m) \<in> set backup_storage_types \<longrightarrow>
           Datapoints (bucket_answer (Dimensions m)) \<noteq> []"
    by (simp add: bucket_storage_type_values bucket_answers)
  have "snd (get_bucket_size bucket_twin_session 0 ''acct'' ''us-east-1'' ''b1'') =
     Inr [\<lparr>account_id = ''acct'', region_name = ''us-east-1'',
           resource_key = ''b1::StandardStorage'', size_bytes = PyFloat (2001 / 2)\<rparr>,
          \<lparr>account_id = ''acct'', region_name = ''us-east-1'',
           resource_key = ''b1::StandardStorage'', size_bytes = PyFloat (2001 / 2)\<rparr>]"
    using get_bucket_size_answered [OF v l refl n a p, of "''acct''"]
    by (simp add: bucket_storage_type_values bucket_answers allowed_classes)
  moreover have "cloudwatch_list_metrics bucket_twin_session ''us-east-1''
     \<lparr>lm_Namespace = ''AWS/S3'', lm_MetricName = ''BucketSizeBytes'',
      lm_Dimensions = [\<lparr>dim_Name = ''BucketName'', dim_Value = ''b1''\<rparr>]\<rparr> =
     [Inr \<lparr>Metrics =
        [\<lparr>Dimensions = [\<lparr>dim_Name = ''BucketName'', dim_Value = ''b1''\<rparr>,
                        \<lparr>dim_Name = ''StorageType'', dim_Value = ''StandardStorage''\<rparr>]\<rparr>,
         \<lparr>Dimensions = [\<lparr>dim_Name = ''BucketName'', dim_Value = ''b1''\<rparr>,
                        \<lparr>dim_Name = ''StorageType'', dim_Value = ''StandardStorage''\<rparr>]\<rparr>]\<rparr>]"
    by (simp add: bucket_twin_session_def bucket_listing_request_def bucket_dimensions_def)
  ultimately show ?thesis by (intro conjI)
qed

lemma statistics_loop_calls:
  "fst (statistics_loop s account region b start_time end_time period md calls acc) =
     calls @
     map (\<lambda>(c, dims). GetMetricStatistics region
            (bucket_statistics_request dims start_time end_time period))
       (take (Suc (length (takeWhile
                (\<lambda>(c, dims).
                   case cloudwatch_get_metric_statistics s region
                          (bucket_statistics_request dims start_time end_time period) of
                     Inl _ \<Rightarrow> False
                   | Inr resp \<Rightarrow> c \<in> set backup_storage_types \<longrightarrow> Datapoints resp \<noteq> [])
                md))) md)"
proof (induction md arbitrary: calls acc)
  case Nil
  then show ?case by simp
next
  case (Cons p md)
  obtain c dims where p: "p = (c, dims)" by (cases p)
  show ?case
  proof (cases "cloudwatch_get_metric_statistics s region
                  (bucket_statistics_request dims start_time end_time period)")
    case (Inl e)
    then show ?thesis
      using p by (simp add: Let_def)
  next
    case (Inr resp)
    show ?thesis
    proof (cases "c \<in> set backup_storage_types")
      case True
      show ?thesis
      proof (cases "Datapoints resp")
        case Nil
        then show ?thesis
          using p Inr True by (simp add: Let_def)
      next
        case (Cons d ds)
        then show ?thesis
          using p Inr True Cons.IH by (simp add: Let_def)
      qed
    next
      case False
      then show ?thesis
        using p Inr Cons.IH by (simp add: Let_def)
    qed
  qed
qed

lemma statistics_loop_completes:
  "(\<exists>records. snd (statistics_loop s account region b start_time end_time period md calls acc) =
       Inr records) =
   (\<forall>(c, dims) \<in> set md.
      case cloudwatch_get_metric_statistics s region
             (bucket_statistics_request dims start_time end_time period) of
        Inl _ \<Rightarrow> False
      | Inr resp \<Rightarrow> c \<in> set backup_storage_types \<longrightarrow> Datapoints resp \<noteq> [])"
proof (induction md arbitrary: calls acc)
  case Nil
  then show ?case by simp
next
  case (Cons p md)
  obtain c dims where p: "p = (c, dims)" by (cases p)
  show ?case
  proof (cases "cloudwatch_get_metric_statistics s region
                  (bucket_statistics_request dims start_time end_time period)")
    case (Inl e)
    then show ?thesis
      using p by (simp add: Let_def)
  next
    case (Inr resp)
    show ?thesis
    proof (cases "c \<in> set backup_storage_types")
      case True
      show ?thesis
      proof (cases "Datapoints resp")
        case Nil
        then show ?thesis
          using p Inr True by (simp add: Let_def)
      next
        case (Cons d ds)
        then show ?thesis
          using p Inr True Cons.IH by (simp add: Let_def)
      qed
    next
      case False
      then show ?thesis
        using p Inr Cons.IH by (simp add: Let_def)
    qed
  qed
qed

text \<open>
  C10, as the code has it. Once the bucket is validated and the listing fetched, with a
  \<open>StorageType\<close> dimension in every listed metric, the average query over the
  trailing two days is issued for the listed metrics in listing order, whether or not
  their storage class is in the allow-list, up to and including the first metric whose
  query raises or whose class is allow-listed while its answer has no datapoint, where
  the lookup stops. A lookup that returns records has issued it for every listed
  metric. The allow-list is consulted after each query, to decide whether a record is
  built from the answer.
\<close>

theorem bucket_statistics_queried_before_allow_list:
  assumes "s3_get_bucket_location s region b = Inr lresp"
    and "LocationConstraint lresp = Some region \<and> region \<noteq> [] \<or>
         (LocationConstraint lresp = None \<or> LocationConstraint lresp = Some []) \<and>
         region = ''us-east-1''"
    and "cloudwatch_list_metrics s region
           \<lparr>lm_Namespace = ''AWS/S3'', lm_MetricName = ''BucketSizeBytes'',
            lm_Dimensions = [\<lparr>dim_Name = ''BucketName'', dim_Value = b\<rparr>]\<rparr> = map Inr pages"
    and "listing = concat (map Metrics pages)"
    and "\<forall>m \<in> set listing.
           \<exists>pre post.
             Dimensions m = pre @ \<lparr>dim_Name = ''StorageType'', dim_Value = cls m\<rparr> # post \<and>
             (\<forall>d \<in> set pre. dim_Name d \<noteq> ''StorageType'')"
    and "allowed =
           [''StandardStorage'', ''StandardIAStorage'', ''OneZoneIAStorage'',
            ''GlacierInstantRetrievalStorage'', ''IntelligentTieringFAStorage'',
            ''IntelligentTieringIAStorage'', ''IntelligentTieringAAStorage'',
            ''IntelligentTieringAIAStorage'', ''IntelligentTieringDAAStorage'']"
    and "query =
           (\<lambda>m. \<lparr>ms_Namespace = ''AWS/S3'', ms_MetricName = ''BucketSizeBytes'',
                  ms_Dimensions = Dimensions m,
                  ms_StartTime = now - 2 * 24 * 60 * 60 * 1000000, ms_EndTime = now,
                  ms_Statistics = [''Average''], ms_Period = 2 * 24 * 60 * 60,
                  ms_Unit = ''Bytes''\<rparr>)"
    and "passes =
           (\<lambda>m. case cloudwatch_get_metric_statistics s region (query m) of
                   Inl _ \<Rightarrow> False
                 | Inr resp \<Rightarrow> cls m \<in> set allowed \<longrightarrow> Datapoints resp \<noteq> [])"
  shows "fst (get_bucket_size s now account region b) =
           GetBucketLocation region b #
           replicate (length pages)
             (ListMetrics region
                \<lparr>lm_Namespace = ''AWS/S3'', lm_MetricName = ''BucketSizeBytes'',
                 lm_Dimensions = [\<lparr>dim_Name = ''BucketName'', dim_Value = b\<rparr>]\<rparr>) @
           map (\<lambda>m. GetMetricStatistics region (query m))
             (take (Suc (length (takeWhile passes listing))) listing) \<and>
         ((\<exists>records. snd (get_bucket_size s now account region b) = Inr records) =
          (\<forall>m \<in> set listing. passes m)) \<and>
         ((\<exists>records. snd (get_bucket_size s now account region b) = Inr records) \<longrightarrow>
          fst (get_bucket_size s now account region b) =
            GetBucketLocation region b #
            replicate (length pages)
              (ListMetrics region
                 \<lparr>lm_Namespace = ''AWS/S3'', lm_MetricName = ''BucketSizeBytes'',
                  lm_Dimensions = [\<lparr>dim_Name = ''BucketName'', dim_Value = b\<rparr>]\<rparr>) @
            map (\<lambda>m. GetMetricStatistics region (query m)) listing)"
proof -
  let ?f = "\<lambda>m. (cls m, Dimensions m)"
  let ?P = "\<lambda>(c, dims).
                   case cloudwatch_get_metric_statistics s region
                          (bucket_statistics_request dims (now - days 2) now (days 2)) of
                     Inl _ \<Rightarrow> False
                   | Inr resp \<Rightarrow> c \<in> set backup_storage_types \<longrightarrow> Datapoints resp \<noteq> []"
  let ?G = "\<lambda>(c, dims). GetMetricStatistics region
            (bucket_statistics_request dims (now - days 2) now (days 2))"
  let ?calls = "GetBucketLocation region b #
              replicate (length pages) (ListMetrics region (bucket_metrics_request b))"
  have allowed: "backup_storage_types = allowed"
    unfolding assms(6) by (rule backup_storage_types_names)
  have valid: "bucket_validation s region b = Inr ()"
    using assms(1,2) by (rule bucket_validation_passes)
  have pages: "cloudwatch_list_metrics s region (bucket_metrics_request b) = map Inr pages"
    unfolding bucket_metrics_request_explicit by (rule assms(3))
  have stv: "\<forall>m \<in> set listing. storage_type_values m \<noteq> [] \<and> hd (storage_type_values m) = cls m"
    using assms(5) storage_type_values_first by blast
  have "metrics_loop (concat (map Metrics pages)) [] =
      Inr (map (\<lambda>m. (hd (storage_type_values m), Dimensions m)) listing)"
    using metrics_loop_all [of listing "[]"] assms(4) stv by simp
  moreover have "map (\<lambda>m. (hd (storage_type_values m), Dimensions m)) listing = map ?f listing"
    using stv by (auto intro: map_cong)
  ultimately have md: "metrics_loop (concat (map Metrics pages)) [] = Inr (map ?f listing)"
    by simp
  have run: "get_bucket_size s now account region b =
      statistics_loop s account region b (now - days 2) now (days 2) (map ?f listing) ?calls []"
    by (rule get_bucket_size_listed [OF valid pages md])
  have P: "?P \<circ> ?f = passes"
    unfolding assms(8) assms(7) bucket_statistics_request_window allowed
    by (simp add: comp_def)
  have G: "?G \<circ> ?f = (\<lambda>m. GetMetricStatistics region (query m))"
    unfolding assms(7) bucket_statistics_request_window by (simp add: comp_def)
  have "fst (get_bucket_size s now account region b) =
      ?calls @ map ?G (take (Suc (length (takeWhile ?P (map ?f listing)))) (map ?f listing))"
    unfolding run by (rule statistics_loop_calls)
  also have "takeWhile ?P (map ?f listing) = map ?f (takeWhile (?P \<circ> ?f) listing)"
    by (rule takeWhile_map)
  finally have calls: "fst (get_bucket_size s now account region b) =
      ?calls @ map (\<lambda>m. GetMetricStatistics region (query m))
                 (take (Suc (length (takeWhile passes listing))) listing)"
    unfolding P by (simp add: take_map G)
  have "(\<exists>records. snd (get_bucket_size s now account region b) = Inr records) =
      (\<forall>p \<in> set (map ?f listing). ?P p)"
    unfolding run by (rule statistics_loop_completes)
  also have "\<dots> = (\<forall>m \<in> set listing. (?P \<circ> ?f) m)"
    by simp
  finally have completes:
    "(\<exists>records. snd (get_bucket_size s now account region b) = Inr records) =
     (\<forall>m \<in> set listing. passes m)"
    unfolding P .
  have all: "(\<exists>records. snd (get_bucket_size s now account region b) = Inr records) \<longrightarrow>
      fst (get_bucket_size s now account region b) =
        ?calls @ map (\<lambda>m. GetMetricStatistics region (query m)) listing"
  proof
    assume "\<exists>records. snd (get_bucket_size s now account region b) = Inr records"
    then have "\<forall>m \<in> set listing. passes m"
      using completes by simp
    then have tw: "takeWhile passes listing = listing"
      by (simp add: takeWhile_eq_all_conv)
    have "take (Suc (length (takeWhile passes listing))) listing = listing"
      unfolding tw by simp
    then show "fst (get_bucket_size s now account region b) =
        ?calls @ map (\<lambda>m. GetMetricStatistics region (query m)) listing"
      unfolding calls by (simp only:)
  qed
  from calls completes all show ?thesis
    unfolding bucket_metrics_request_explicit by simp
qed

lemma bucket_void_session_answered:
  "cloudwatch_get_metric_statistics bucket_void_session ''us-east-1''
     \<lparr>ms_Namespace = ''AWS/S3'', ms_MetricName = ''BucketSizeBytes'',
      ms_Dimensions = dimensions,
      ms_StartTime = - 172800000000, ms_EndTime = 0,
      ms_Statistics = [''Average''], ms_Period = 172800,
      ms_Unit = ''Bytes''\<rparr> = Inr \<lparr>Datapoints = []\<rparr>"
  by (simp add: bucket_void_session_def bucket_average_request_def)

lemma bucket_session_answered_at_zero:
  "cloudwatch_get_metric_statistics bucket_session ''us-east-1''
     \<lparr>ms_Namespace = ''AWS/S3'', ms_MetricName = ''BucketSizeBytes'',
      ms_Dimensions = dimensions,
      ms_StartTime = - 172800000000, ms_EndTime = 0,
      ms_Statistics = [''Average''], ms_Period = 172800,
      ms_Unit = ''Bytes''\<rparr> = Inr (bucket_answer dimensions)"
  using bucket_session_answered [of dimensions] by simp

theorem bucket_statistics_queried_before_allow_list_witness:
  "fst (get_bucket_size bucket_session 0 ''acct'' ''us-east-1'' ''b1'') =
     [GetBucketLocation ''us-east-1'' ''b1'',
      ListMetrics ''us-east-1''
        \<lparr>lm_Namespace = ''AWS/S3'', lm_MetricName = ''BucketSizeBytes'',
         lm_Dimensions = [\<lparr>dim_Name = ''BucketName'', dim_Value = ''b1''\<rparr>]\<rparr>,
      ListMetrics ''us-east-1''
        \<lparr>lm_Namespace = ''AWS/S3'', lm_MetricName = ''BucketSizeBytes'',
         lm_Dimensions = [\<lparr>dim_Name = ''BucketName'', dim_Value = ''b1''\<rparr>]\<rparr>,
      GetMetricStatistics ''us-east-1''
        \<lparr>ms_Namespace = ''AWS/S3'', ms_MetricName = ''BucketSizeBytes'',
         ms_Dimensions = bucket_dimensions ''StandardStorage'',
         ms_StartTime = - 172800000000, ms_EndTime = 0,
         ms_Statistics = [''Average''], ms_Period = 172800, ms_Unit = ''Bytes''\<rparr>,
      GetMetricStatistics ''us-east-1''
        \<lparr>ms_Namespace = ''AWS/S3'', ms_MetricName = ''BucketSizeBytes'',
         ms_Dimensions = bucket_dimensions ''GlacierStorage'',
         ms_StartTime = - 172800000000, ms_EndTime = 0,
         ms_Statistics = [''Average''], ms_Period = 172800, ms_Unit = ''Bytes''\<rparr>,
      GetMetricStatistics ''us-east-1''
        \<lparr>ms_Namespace = ''AWS/S3'', ms_MetricName = ''BucketSizeBytes'',
         ms_Dimensions = bucket_dimensions ''StandardIAStorage'',
         ms_StartTime = - 172800000000, ms_EndTime = 0,
         ms_Statistics = [''Average''], ms_Period = 172800, ms_Unit = ''Bytes''\<rparr>] \<and>
   fst (get_bucket_size bucket_void_session 0 ''acct'' ''us-east-1'' ''b1'') =
     [GetBucketLocation ''us-east-1'' ''b1'',
      ListMetrics ''us-east-1''
        \<lparr>lm_Namespace = ''AWS/S3'', lm_MetricName = ''BucketSizeBytes'',
         lm_Dimensions = [\<lparr>dim_Name = ''BucketName'', dim_Value = ''b1''\<rparr>]\<rparr>,
      ListMetrics ''us-east-1''
        \<lparr>lm_Namespace = ''AWS/S3'', lm_MetricName = ''BucketSizeBytes'',
         lm_Dimensions = [\<lparr>dim_Name = ''BucketName'', dim_Value = ''b1''\<rparr>]\<rparr>,
      GetMetricStatistics ''us-east-1''
        \<lparr>ms_Namespace = ''AWS/S3'', ms_MetricName = ''BucketSizeBytes'',
         ms_Dimensions = bucket_dimensions ''StandardStorage'',
         ms_StartTime = - 172800000000, ms_EndTime = 0,
         ms_Statistics = [''Average''], ms_Period = 172800, ms_Unit = ''Bytes''\<rparr>]"
proof -
  let ?cls = "\<lambda>m :: metric. dim_Value (last (Dimensions m))"
  have len: "length bucket_pages = Suc (Suc 0)"
    by (simp add: bucket_pages_def)
  have h2: "LocationConstraint \<lparr>LocationConstraint = None\<rparr> = Some ''us-east-1'' \<and>
         ''us-east-1'' \<noteq> [] \<or>
         (LocationConstraint \<lparr>LocationConstraint = None\<rparr> = None \<or>
          LocationConstraint \<lparr>LocationConstraint = None\<rparr> = Some []) \<and>
         ''us-east-1'' = ''us-east-1''"
    by simp
  have h5: "\<forall>m \<in> set (concat (map Metrics bucket_pages)).
           \<exists>pre post.
             Dimensions m = pre @ \<lparr>dim_Name = ''StorageType'', dim_Value = ?cls m\<rparr> # post \<and>
             (\<forall>d \<in> set pre. dim_Name d \<noteq> ''StorageType'')"
    using bucket_dimensions_split [of "''StandardStorage''"]
      bucket_dimensions_split [of "''GlacierStorage''"]
      bucket_dimensions_split [of "''StandardIAStorage''"]
    by (simp add: bucket_listing bucket_dimensions_last)
  have v1: "s3_get_bucket_location bucket_void_session ''us-east-1'' ''b1'' =
      Inr \<lparr>LocationConstraint = None\<rparr>"
    by (simp add: bucket_void_session_def bucket_session_located)
  have v3: "cloudwatch_list_metrics bucket_void_session ''us-east-1''
     \<lparr>lm_Namespace = ''AWS/S3'', lm_MetricName = ''BucketSizeBytes'',
      lm_Dimensions = [\<lparr>dim_Name = ''BucketName'', dim_Value = ''b1''\<rparr>]\<rparr> = map Inr bucket_pages"
    using bucket_session_listed by (simp add: bucket_void_session_def)
  from bucket_statistics_queried_before_allow_list
    [OF bucket_session_located h2 bucket_session_listed refl h5 refl refl refl,
     of 0 "''acct''", THEN conjunct1]
  have r1: "fst (get_bucket_size bucket_session 0 ''acct'' ''us-east-1'' ''b1'') =
     [GetBucketLocation ''us-east-1'' ''b1'',
      ListMetrics ''us-east-1''
        \<lparr>lm_Namespace = ''AWS/S3'', lm_MetricName = ''BucketSizeBytes'',
         lm_Dimensions = [\<lparr>dim_Name = ''BucketName'', dim_Value = ''b1''\<rparr>]\<rparr>,
      ListMetrics ''us-east-1''
        \<lparr>lm_Namespace = ''AWS/S3'', lm_MetricName = ''BucketSizeBytes'',
         lm_Dimensions = [\<lparr>dim_Name = ''BucketName'', dim_Value = ''b1''\<rparr>]\<rparr>,
      GetMetricStatistics ''us-east-1''
        \<lparr>ms_Namespace = ''AWS/S3'', ms_MetricName = ''BucketSizeBytes'',
         ms_Dimensions = bucket_dimensions ''StandardStorage'',
         ms_StartTime = - 172800000000, ms_EndTime = 0,
         ms_Statistics = [''Average''], ms_Period = 172800, ms_Unit = ''Bytes''\<rparr>,
      GetMetricStatistics ''us-east-1''
        \<lparr>ms_Namespace = ''AWS/S3'', ms_MetricName = ''BucketSizeBytes'',
         ms_Dimensions = bucket_dimensions ''GlacierStorage'',
         ms_StartTime = - 172800000000, ms_EndTime = 0,
         ms_Statistics = [''Average''], ms_Period = 172800, ms_Unit = ''Bytes''\<rparr>,
      GetMetricStatistics ''us-east-1''
        \<lparr>ms_Namespace = ''AWS/S3'', ms_MetricName = ''BucketSizeBytes'',
         ms_Dimensions = bucket_dimensions ''StandardIAStorage'',
         ms_StartTime = - 172800000000, ms_EndTime = 0,
         ms_Statistics = [''Average''], ms_Period = 172800, ms_Unit = ''Bytes''\<rparr>]"
    by (simp add: bucket_listing len bucket_dimensions_last bucket_session_answered_at_zero
          bucket_answers)
  from bucket_statistics_queried_before_allow_list
    [OF v1 h2 v3 refl h5 refl refl refl, of 0 "''acct''", THEN conjunct1]
  have r2: "fst (get_bucket_size bucket_void_session 0 ''acct'' ''us-east-1'' ''b1'') =
     [GetBucketLocation ''us-east-1'' ''b1'',
      ListMetrics ''us-east-1''
        \<lparr>lm_Namespace = ''AWS/S3'', lm_MetricName = ''BucketSizeBytes'',
         lm_Dimensions = [\<lparr>dim_Name = ''BucketName'', dim_Value = ''b1''\<rparr>]\<rparr>,
      ListMetrics ''us-east-1''
        \<lparr>lm_Namespace = ''AWS/S3'', lm_MetricName = ''BucketSizeBytes'',
         lm_Dimensions = [\<lparr>dim_Name = ''BucketName'', dim_Value = ''b1''\<rparr>]\<rparr>,
      GetMetricStatistics ''us-east-1''
        \<lparr>ms_Namespace = ''AWS/S3'', ms_MetricName = ''BucketSizeBytes'',
         ms_Dimensions = bucket_dimensions ''StandardStorage'',
         ms_StartTime = - 172800000000, ms_EndTime = 0,
         ms_Statistics = [''Average''], ms_Period = 172800, ms_Unit = ''Bytes''\<rparr>]"
    by (simp add: bucket_listing len bucket_dimensions_last bucket_void_session_answered)
  from r1 r2 show ?thesis by (intro conjI)
qed

text \<open>
  A listing whose only metric is of class \<open>GlacierStorage\<close>, which is not
  allow-listed: the statistics query is issued for it all the same, and no record is
  returned.
\<close>

theorem bucket_statistics_only_for_allowed_counterexample:
  "''GlacierStorage'' \<notin> set backup_storage_types \<and>
   get_bucket_size glacier_session 0 ''acct'' ''us-east-1'' ''b1'' =
     ([GetBucketLocation ''us-east-1'' ''b1'',
       ListMetrics ''us-east-1''
         \<lparr>lm_Namespace = ''AWS/S3'', lm_MetricName = ''BucketSizeBytes'',
          lm_Dimensions = [\<lparr>dim_Name = ''BucketName'', dim_Value = ''b1''\<rparr>]\<rparr>,
       GetMetricStatistics ''us-east-1''
         \<lparr>ms_Namespace = ''AWS/S3'', ms_MetricName = ''BucketSizeBytes'',
          ms_Dimensions =
            [\<lparr>dim_Name = ''BucketName'', dim_Value = ''b1''\<rparr>,
             \<lparr>dim_Name = ''StorageType'', dim_Value = ''GlacierStorage''\<rparr>],
          ms_StartTime = - 172800000000, ms_EndTime = 0,
          ms_Statistics = [''Average''], ms_Period = 172800, ms_Unit = ''Bytes''\<rparr>],
      Inr [])"
proof -
  let ?pages = "[\<lparr>Metrics = [\<lparr>Dimensions = bucket_dimensions ''GlacierStorage''\<rparr>]\<rparr>]"
  have v: "bucket_validation glacier_session ''us-east-1'' ''b1'' = Inr ()"
    by (simp add: bucket_validation_def glacier_session_def bucket_session_def
          offline_session_def location_constraint_def)
  have l: "cloudwatch_list_metrics glacier_session ''us-east-1'' (bucket_metrics_request ''b1'') =
      map Inr ?pages"
    by (simp add: glacier_session_def bucket_listing_request_def bucket_metrics_request_def)
  have n: "\<forall>m \<in> set (concat (map Metrics ?pages)). storage_type_values m \<noteq> []"
    by (simp add: bucket_storage_type_values)
  have a: "\<forall>m \<in> set (concat (map Metrics ?pages)).
           cloudwatch_get_metric_statistics glacier_session ''us-east-1''
             (bucket_statistics_request (Dimensions m) (0 - days 2) 0 (days 2)) =
             Inr (bucket_answer (Dimensions m))"
    by (simp add: glacier_session_def bucket_session_def offline_session_def
          bucket_statistics_request_def bucket_average_request_def period_2_days)
  have p: "\<forall>m \<in> set (concat (map Metrics ?pages)).
           hd (storage_type_values m) \<in> set backup_storage_types \<longrightarrow>
           Datapoints (bucket_answer (Dimensions m)) \<noteq> []"
    by (simp add: bucket_storage_type_values allowed_classes)
  have "get_bucket_size glacier_session 0 ''acct'' ''us-east-1'' ''b1'' =
     ([GetBucketLocation ''us-east-1'' ''b1'',
       ListMetrics ''us-east-1''
         \<lparr>lm_Namespace = ''AWS/S3'', lm_MetricName = ''BucketSizeBytes'',
          lm_Dimensions = [\<lparr>dim_Name = ''BucketName'', dim_Value = ''b1''\<rparr>]\<rparr>,
       GetMetricStatistics ''us-east-1''
         \<lparr>ms_Namespace = ''AWS/S3'', ms_MetricName = ''BucketSizeBytes'',
          ms_Dimensions = bucket_dimensions ''GlacierStorage'',
          ms_StartTime = - 172800000000, ms_EndTime = 0,
          ms_Statistics = [''Average''], ms_Period = 172800, ms_Unit = ''Bytes''\<rparr>],
      Inr [])"
    unfolding get_bucket_size_answered [OF v l refl n a p, of "''acct''"]
    by (simp add: bucket_storage_type_values allowed_classes bucket_statistics_request_def
          period_2_days bucket_metrics_request_def)
  then have "get_bucket_size glacier_session 0 ''acct'' ''us-east-1'' ''b1'' =
     ([GetBucketLocation ''us-east-1'' ''b1'',
       ListMetrics ''us-east-1''
         \<lparr>lm_Namespace = ''AWS/S3'', lm_MetricName = ''BucketSizeBytes'',
          lm_Dimensions = [\<lparr>dim_Name = ''BucketName'', dim_Value = ''b1''\<rparr>]\<rparr>,
       GetMetricStatistics ''us-east-1''
         \<lparr>ms_Namespace = ''AWS/S3'', ms_MetricName = ''BucketSizeBytes'',
          ms_Dimensions =
            [\<lparr>dim_Name = ''BucketName'', dim_Value = ''b1''\<rparr>,
             \<lparr>dim_Name = ''StorageType'', dim_Value = ''GlacierStorage''\<rparr>],
          ms_StartTime = - 172800000000, ms_EndTime = 0,
          ms_Statistics = [''Average''], ms_Period = 172800, ms_Unit = ''Bytes''\<rparr>],
      Inr [])"
    by (simp add: bucket_dimensions_def)
  with allowed_classes(3) show ?thesis by (intro conjI)
qed

section \<open>Unit conversions across the lookups\<close>

lemma py_int_truncates:
  "\<bar>of_int (py_int x) - x\<bar> < 1" "\<bar>of_int (py_int x)\<bar> \<le> \<bar>x\<bar>"
  "x \<in> \<int> \<Longrightarrow> of_int (py_int x) = x"
  unfolding py_int_def by (auto elim: Ints_cases) linarith+

lemma rds_instance_eq:
  assumes "rds_describe_db_instances s region rid = Inr iresp"
    and "DBInstances iresp = inst # others"
  shows "get_rds_instance_size s account region rid =
           Inr \<lparr>account_id = account, region_name = region, resource_key = rid,
                size_bytes = PyInt (instance_AllocatedStorage inst * 1024 ^ 3)\<rparr>"
  using assms by (simp add: get_rds_instance_size_def)

lemma efs_file_system_eq:
  assumes "efs_describe_file_systems s region rid = Inr fresp"
    and "FileSystems fresp = fs # others"
  shows "get_efs_file_system_size s account region rid =
           Inr \<lparr>account_id = account, region_name = region, resource_key = rid,
                size_bytes = PyInt (Value (SizeInBytes fs))\<rparr>"
  using assms by (simp add: get_efs_file_system_size_def)

lemma dynamodb_table_eq:
  assumes "dynamodb_describe_table s region rid = Inr tresp"
  shows "get_dynamodb_table_size s account region rid =
           Inr \<lparr>account_id = account, region_name = region, resource_key = rid,
                size_bytes = PyInt (TableSizeBytes (Table tresp))\<rparr>"
  using assms by (simp add: get_dynamodb_table_size_def)

text \<open>
  C1, as the code has it. The sizes given in GiB (the volumes of an instance, the
  allocated storage of a non-aurora cluster and of a database instance) are multiplied
  by exactly \<open>1024 ^ 3\<close>; the snapshot's size in MiB is multiplied by exactly
  \<open>1024 ^ 2\<close>; the file system's \<open>SizeInBytes\<close>, the table's \<open>TableSizeBytes\<close> and the
  bucket metrics' averages are returned as they are. The aurora metric maximum gets no
  unit multiplier either, but it is not returned as it is: \<open>int()\<close> truncates it
  toward zero, which changes it by less than one byte and not at all when it is a
  whole number.
\<close>

theorem sizes_converted_to_bytes:
  "(\<forall>iresp vresp.
      ec2_describe_instances s region [rid] = Inr iresp \<and>
      ec2_describe_volumes s region (attached_volume_ids iresp) = Inr vresp \<longrightarrow>
      get_ec2_instance_size s account region rid =
        Inr (map (\<lambda>v. \<lparr>account_id = account, region_name = region,
                        resource_key = rid @ ''::'' @ VolumeId v,
                        size_bytes = PyInt (Size v * 1024 ^ 3)\<rparr>)
               (get_or_empty (Volumes vresp)))) \<and>
   (\<forall>cresp cluster others.
      rds_describe_db_clusters s region rid = Inr cresp \<and>
      DBClusters cresp = cluster # others \<and>
      \<not> startswith (Engine cluster) ''aurora-'' \<longrightarrow>
      get_rds_cluster_size s now account region rid =
        Inr \<lparr>account_id = account, region_name = region, resource_key = rid,
             size_bytes = PyInt (cluster_AllocatedStorage cluster * 1024 ^ 3)\<rparr>) \<and>
   (\<forall>iresp inst others.
      rds_describe_db_instances s region rid = Inr iresp \<and>
      DBInstances iresp = inst # others \<longrightarrow>
      get_rds_instance_size s account region rid =
        Inr \<lparr>account_id = account, region_name = region, resource_key = rid,
             size_bytes = PyInt (instance_AllocatedStorage inst * 1024 ^ 3)\<rparr>) \<and>
   (\<forall>sresp.
      redshift_describe_cluster_snapshots s region
        \<lparr>cs_ClusterIdentifier = rid,
         cs_StartTime = now - 7 * 24 * 60 * 60 * 1000000,
         cs_SortingEntities = [(''CREATE_TIME'', ''DESC'')]\<rparr> = Inr sresp \<and>
      Snapshots sresp \<noteq> [] \<longrightarrow>
      get_redshift_cluster_size s now account region rid =
        Inr \<lparr>account_id = account, region_name = region, resource_key = rid,
             size_bytes =
               PyFloat (TotalBackupSizeInMegaBytes
                          (hd (sorted_reverse SnapshotCreateTime (Snapshots sresp))) *
                        1024 ^ 2)\<rparr>) \<and>
   (\<forall>fresp fs others.
      efs_describe_file_systems s region rid = Inr fresp \<and>
      FileSystems fresp = fs # others \<longrightarrow>
      get_efs_file_system_size s account region rid =
        Inr \<lparr>account_id = account, region_name = region, resource_key = rid,
             size_bytes = PyInt (Value (SizeInBytes fs))\<rparr>) \<and>
   (\<forall>tresp.
      dynamodb_describe_table s region rid = Inr tresp \<longrightarrow>
      get_dynamodb_table_size s account region rid =
        Inr \<lparr>account_id = account, region_name = region, resource_key = rid,
             size_bytes = PyInt (TableSizeBytes (Table tresp))\<rparr>) \<and>
   (\<forall>pages answer.
      bucket_validation s region rid = Inr () \<and>
      cloudwatch_list_metrics s region (bucket_metrics_request rid) = map Inr pages \<and>
      (\<forall>m \<in> set (concat (map Metrics pages)). storage_type_values m \<noteq> []) \<and>
      (\<forall>m \<in> set (concat (map Metrics pages)).
         cloudwatch_get_metric_statistics s region
           (bucket_statistics_request (Dimensions m) (now - days 2) now (days 2)) =
           Inr (answer (Dimensions m))) \<and>
      (\<forall>m \<in> set (concat (map Metrics pages)).
         hd (storage_type_values m) \<in> set backup_storage_types \<longrightarrow>
         Datapoints (answer (Dimensions m)) \<noteq> []) \<longrightarrow>
      snd (get_bucket_size s now account region rid) =
        Inr (map (\<lambda>m. \<lparr>account_id = account, region_name = region,
                        resource_key = rid @ ''::'' @ hd (storage_type_values m),
                        size_bytes =
                          PyFloat (Average (hd (Datapoints (answer (Dimensions m)))))\<rparr>)
               (filter (\<lambda>m. hd (storage_type_values m) \<in> set backup_storage_types)
                  (concat (map Metrics pages))))) \<and>
   (\<forall>cresp cluster others mresp.
      rds_describe_db_clusters s region rid = Inr cresp \<and>
      DBClusters cresp = cluster # others \<and>
      startswith (Engine cluster) ''aurora-'' \<and>
      cloudwatch_get_metric_statistics s region
        \<lparr>ms_Namespace = ''AWS/RDS'', ms_MetricName = ''VolumeBytesUsed'',
         ms_Dimensions = [\<lparr>dim_Name = ''DBClusterIdentifier'', dim_Value = rid\<rparr>],
         ms_StartTime = now - 30 * 60 * 1000000, ms_EndTime = now,
         ms_Statistics = [''Maximum''], ms_Period = 30 * 60, ms_Unit = ''Bytes''\<rparr> = Inr mresp \<and>
      Datapoints mresp \<noteq> [] \<longrightarrow>
      get_rds_cluster_size s now account region rid =
        Inr \<lparr>account_id = account, region_name = region, resource_key = rid,
             size_bytes =
               PyInt (py_int (Maximum (hd (sorted_reverse Timestamp (Datapoints mresp)))))\<rparr>) \<and>
   (\<forall>x. \<bar>of_int (py_int x) - x\<bar> < 1 \<and> (x \<in> \<int> \<longrightarrow> of_int (py_int x) = x))"
proof (intro conjI allI impI)
  fix iresp vresp
  assume "ec2_describe_instances s region [rid] = Inr iresp \<and>
      ec2_describe_volumes s region (attached_volume_ids iresp) = Inr vresp"
  then show "get_ec2_instance_size s account region rid =
        Inr (map (\<lambda>v. \<lparr>account_id = account, region_name = region,
                        resource_key = rid @ ''::'' @ VolumeId v,
                        size_bytes = PyInt (Size v * 1024 ^ 3)\<rparr>)
               (get_or_empty (Volumes vresp)))"
    using get_ec2_instance_size_eq by blast
next
  fix cresp cluster others
  assume "rds_describe_db_clusters s region rid = Inr cresp \<and>
      DBClusters cresp = cluster # others \<and>
      \<not> startswith (Engine cluster) ''aurora-''"
  then show "get_rds_cluster_size s now account region rid =
        Inr \<lparr>account_id = account, region_name = region, resource_key = rid,
             size_bytes = PyInt (cluster_AllocatedStorage cluster * 1024 ^ 3)\<rparr>"
    using rds_cluster_allocated_eq by blast
next
  fix iresp inst others
  assume "rds_describe_db_instances s region rid = Inr iresp \<and>
      DBInstances iresp = inst # others"
  then show "get_rds_instance_size s account region rid =
        Inr \<lparr>account_id = account, region_name = region, resource_key = rid,
             size_bytes = PyInt (instance_AllocatedStorage inst * 1024 ^ 3)\<rparr>"
    using rds_instance_eq by blast
next
  fix sresp
  assume a: "redshift_describe_cluster_snapshots s region
        \<lparr>cs_ClusterIdentifier = rid,
         cs_StartTime = now - 7 * 24 * 60 * 60 * 1000000,
         cs_SortingEntities = [(''CREATE_TIME'', ''DESC'')]\<rparr> = Inr sresp \<and>
      Snapshots sresp \<noteq> []"
  then show "get_redshift_cluster_size s now account region rid =
        Inr \<lparr>account_id = account, region_name = region, resource_key = rid,
             size_bytes =
               PyFloat (TotalBackupSizeInMegaBytes
                          (hd (sorted_reverse SnapshotCreateTime (Snapshots sresp))) *
                        1024 ^ 2)\<rparr>"
    using redshift_cluster_eq [OF a [THEN conjunct1], of account] by simp
next
  fix fresp fs others
  assume "efs_describe_file_systems s region rid = Inr fresp \<and>
      FileSystems fresp = fs # others"
  then show "get_efs_file_system_size s account region rid =
        Inr \<lparr>account_id = account, region_name = region, resource_key = rid,
             size_bytes = PyInt (Value (SizeInBytes fs))\<rparr>"
    using efs_file_system_eq by blast
next
  fix tresp
  assume "dynamodb_describe_table s region rid = Inr tresp"
  then show "get_dynamodb_table_size s account region rid =
        Inr \<lparr>account_id = account, region_name = region, resource_key = rid,
             size_bytes = PyInt (TableSizeBytes (Table tresp))\<rparr>"
    by (rule dynamodb_table_eq)
next
  fix pages answer
  assume a: "bucket_validation s region rid = Inr () \<and>
      cloudwatch_list_metrics s region (bucket_metrics_request rid) = map Inr pages \<and>
      (\<forall>m \<in> set (concat (map Metrics pages)). storage_type_values m \<noteq> []) \<and>
      (\<forall>m \<in> set (concat (map Metrics pages)).
         cloudwatch_get_metric_statistics s region
           (bucket_statistics_request (Dimensions m) (now - days 2) now (days 2)) =
           Inr (answer (Dimensions m))) \<and>
      (\<forall>m \<in> set (concat (map Metrics pages)).
         hd (storage_type_values m) \<in> set backup_storage_types \<longrightarrow>
         Datapoints (answer (Dimensions m)) \<noteq> [])"
  show "snd (get_bucket_size s now account region rid) =
        Inr (map (\<lambda>m. \<lparr>account_id = account, region_name = region,
                        resource_key = rid @ ''::'' @ hd (storage_type_values m),
                        size_bytes =
                          PyFloat (Average (hd (Datapoints (answer (Dimensions m)))))\<rparr>)
               (filter (\<lambda>m. hd (storage_type_values m) \<in> set backup_storage_types)
                  (concat (map Metrics pages))))"
    using get_bucket_size_answered
      [OF a [THEN conjunct1] a [THEN conjunct2, THEN conjunct1] refl
        a [THEN conjunct2, THEN conjunct2, THEN conjunct1]
        a [THEN conjunct2, THEN conjunct2, THEN conjunct2, THEN conjunct1]
        a [THEN conjunct2, THEN conjunct2, THEN conjunct2, THEN conjunct2], of account]
    by simp
next
  fix cresp cluster others mresp
  assume a: "rds_describe_db_clusters s region rid = Inr cresp \<and>
      DBClusters cresp = cluster # others \<and>
      startswith (Engine cluster) ''aurora-'' \<and>
      cloudwatch_get_metric_statistics s region
        \<lparr>ms_Namespace = ''AWS/RDS'', ms_MetricName = ''VolumeBytesUsed'',
         ms_Dimensions = [\<lparr>dim_Name = ''DBClusterIdentifier'', dim_Value = rid\<rparr>],
         ms_StartTime = now - 30 * 60 * 1000000, ms_EndTime = now,
         ms_Statistics = [''Maximum''], ms_Period = 30 * 60, ms_Unit = ''Bytes''\<rparr> = Inr mresp \<and>
      Datapoints mresp \<noteq> []"
  show "get_rds_cluster_size s now account region rid =
        Inr \<lparr>account_id = account, region_name = region, resource_key = rid,
             size_bytes =
               PyInt (py_int (Maximum (hd (sorted_reverse Timestamp (Datapoints mresp)))))\<rparr>"
    using rds_cluster_aurora_eq
      [OF a [THEN conjunct1] a [THEN conjunct2, THEN conjunct1]
        a [THEN conjunct2, THEN conjunct2, THEN conjunct1]
        a [THEN conjunct2, THEN conjunct2, THEN conjunct2, THEN conjunct1], of account]
      a [THEN conjunct2, THEN conjunct2, THEN conjunct2, THEN conjunct2]
    by simp
next
  fix x :: rat
  show "\<bar>of_int (py_int x) - x\<bar> < 1"
    by (rule py_int_truncates)
next
  fix x :: rat
  assume "x \<in> \<int>"
  then show "of_int (py_int x) = x"
    by (rule py_int_truncates)
qed

theorem sizes_converted_to_bytes_witness:
  "get_ec2_instance_size two_volume_session ''acct'' ''eu-west-1'' ''i-1'' =
     Inr [\<lparr>account_id = ''acct'', region_name = ''eu-west-1'', resource_key = ''i-1::vol-a'',
           size_bytes = PyInt (20 * 1024 ^ 3)\<rparr>,
          \<lparr>account_id = ''acct'', region_name = ''eu-west-1'', resource_key = ''i-1::vol-b'',
           size_bytes = PyInt (100 * 1024 ^ 3)\<rparr>] \<and>
   get_rds_cluster_size storage_session 0 ''acct'' ''us-east-1'' ''db-2'' =
     Inr \<lparr>account_id = ''acct'', region_name = ''us-east-1'', resource_key = ''db-2'',
          size_bytes = PyInt (50 * 1024 ^ 3)\<rparr> \<and>
   get_rds_instance_size storage_session ''acct'' ''us-east-1'' ''db-3'' =
     Inr \<lparr>account_id = ''acct'', region_name = ''us-east-1'', resource_key = ''db-3'',
          size_bytes = PyInt (20 * 1024 ^ 3)\<rparr> \<and>
   get_redshift_cluster_size snapshot_session 0 ''acct'' ''us-east-1'' ''wh-1'' =
     Inr \<lparr>account_id = ''acct'', region_name = ''us-east-1'', resource_key = ''wh-1'',
          size_bytes = PyFloat (5 / 2 * 1024 ^ 2)\<rparr> \<and>
   get_efs_file_system_size storage_session ''acct'' ''us-east-1'' ''fs-1'' =
     Inr \<lparr>account_id = ''acct'', region_name = ''us-east-1'', resource_key = ''fs-1'',
          size_bytes = PyInt 6144\<rparr> \<and>
   get_dynamodb_table_size storage_session ''acct'' ''us-east-1'' ''t-1'' =
     Inr \<lparr>account_id = ''acct'', region_name = ''us-east-1'', resource_key = ''t-1'',
          size_bytes = PyInt 4096\<rparr> \<and>
   snd (get_bucket_size bucket_session 0 ''acct'' ''us-east-1'' ''b1'') =
     Inr [\<lparr>account_id = ''acct'', region_name = ''us-east-1'',
           resource_key = ''b1::StandardStorage'', size_bytes = PyFloat (2001 / 2)\<rparr>,
          \<lparr>account_id = ''acct'', region_name = ''us-east-1'',
           resource_key = ''b1::StandardIAStorage'', size_bytes = PyFloat 2048\<rparr>] \<and>
   get_rds_cluster_size aurora_session 0 ''acct'' ''us-east-1'' ''db-1'' =
     Inr \<lparr>account_id = ''acct'', region_name = ''us-east-1'', resource_key = ''db-1'',
          size_bytes = PyInt 7\<rparr>"
proof -
  note ec2 = sizes_converted_to_bytes
    [of two_volume_session "''eu-west-1''" "''i-1''" "''acct''" 0, THEN conjunct1, rule_format]
  note rest = sizes_converted_to_bytes
    [of storage_session "''us-east-1''" _ "''acct''" 0, THEN conjunct2]
  note cluster = rest [of "''db-2''", THEN conjunct1, rule_format]
  note inst = rest [of "''db-3''", THEN conjunct2, THEN conjunct1, rule_format]
  note efs = rest [of "''fs-1''", THEN conjunct2, THEN conjunct2, THEN conjunct2,
    THEN conjunct1, rule_format]
  note ddb = rest [of "''t-1''", THEN conjunct2, THEN conjunct2, THEN conjunct2,
    THEN conjunct2, THEN conjunct1, rule_format]
  note redshift = sizes_converted_to_bytes
    [of snapshot_session "''us-east-1''" "''wh-1''" "''acct''" 0, THEN conjunct2,
     THEN conjunct2, THEN conjunct2, THEN conjunct1, rule_format]
  note bucket = sizes_converted_to_bytes
    [of bucket_session "''us-east-1''" "''b1''" "''acct''" 0, THEN conjunct2,
     THEN conjunct2, THEN conjunct2, THEN conjunct2, THEN conjunct2, THEN conjunct2,
     THEN conjunct1, rule_format]
  note aurora = sizes_converted_to_bytes
    [of aurora_session "''us-east-1''" "''db-1''" "''acct''" 0, THEN conjunct2,
     THEN conjunct2, THEN conjunct2, THEN conjunct2, THEN conjunct2, THEN conjunct2,
     THEN conjunct2, THEN conjunct1, rule_format]
  have ids: "attached_volume_ids two_volume_instances = [''vol-a'', ''vol-b'']"
    by (simp add: attached_volume_ids_def two_volume_instances_def get_or_empty_def)
  have "ec2_describe_instances two_volume_session ''eu-west-1'' [''i-1''] =
          Inr two_volume_instances \<and>
        ec2_describe_volumes two_volume_session ''eu-west-1''
          (attached_volume_ids two_volume_instances) = Inr \<lparr>Volumes = Some two_volumes\<rparr>"
    by (simp add: two_volume_session_def offline_session_def)
  from ec2 [OF this] have r1:
    "get_ec2_instance_size two_volume_session ''acct'' ''eu-west-1'' ''i-1'' =
     Inr [\<lparr>account_id = ''acct'', region_name = ''eu-west-1'', resource_key = ''i-1::vol-a'',
           size_bytes = PyInt (20 * 1024 ^ 3)\<rparr>,
          \<lparr>account_id = ''acct'', region_name = ''eu-west-1'', resource_key = ''i-1::vol-b'',
           size_bytes = PyInt (100 * 1024 ^ 3)\<rparr>]"
    by (simp add: get_or_empty_def two_volumes_def)
  have "rds_describe_db_clusters storage_session ''us-east-1'' ''db-2'' =
          Inr \<lparr>DBClusters = [\<lparr>Engine = ''postgres'', cluster_AllocatedStorage = 50\<rparr>]\<rparr> \<and>
        DBClusters \<lparr>DBClusters = [\<lparr>Engine = ''postgres'', cluster_AllocatedStorage = 50\<rparr>]\<rparr> =
          \<lparr>Engine = ''postgres'', cluster_AllocatedStorage = 50\<rparr> # [] \<and>
        \<not> startswith (Engine \<lparr>Engine = ''postgres'', cluster_AllocatedStorage = 50\<rparr>) ''aurora-''"
    by (simp add: storage_session_def offline_session_def startswith_def)
  from cluster [OF this] have r2:
    "get_rds_cluster_size storage_session 0 ''acct'' ''us-east-1'' ''db-2'' =
     Inr \<lparr>account_id = ''acct'', region_name = ''us-east-1'', resource_key = ''db-2'',
          size_bytes = PyInt (50 * 1024 ^ 3)\<rparr>"
    by simp
  have "rds_describe_db_instances storage_session ''us-east-1'' ''db-3'' =
          Inr \<lparr>DBInstances = [\<lparr>instance_AllocatedStorage = 20\<rparr>]\<rparr> \<and>
        DBInstances \<lparr>DBInstances = [\<lparr>instance_AllocatedStorage = 20\<rparr>]\<rparr> =
          \<lparr>instance_AllocatedStorage = 20\<rparr> # []"
    by (simp add: storage_session_def offline_session_def)
  from inst [OF this] have r3:
    "get_rds_instance_size storage_session ''acct'' ''us-east-1'' ''db-3'' =
     Inr \<lparr>account_id = ''acct'', region_name = ''us-east-1'', resource_key = ''db-3'',
          size_bytes = PyInt (20 * 1024 ^ 3)\<rparr>"
    by simp
  have h: "hd (sorted_reverse SnapshotCreateTime unsorted_snapshots) =
      \<lparr>SnapshotCreateTime = 30, TotalBackupSizeInMegaBytes = 5 / 2\<rparr>"
    by (simp add: sorted_reverse_def unsorted_snapshots_def)
  have "redshift_describe_cluster_snapshots snapshot_session ''us-east-1''
          \<lparr>cs_ClusterIdentifier = ''wh-1'',
           cs_StartTime = 0 - 7 * 24 * 60 * 60 * 1000000,
           cs_SortingEntities = [(''CREATE_TIME'', ''DESC'')]\<rparr> =
          Inr \<lparr>Snapshots = unsorted_snapshots\<rparr> \<and>
        Snapshots \<lparr>Snapshots = unsorted_snapshots\<rparr> \<noteq> []"
    by (simp add: snapshot_session_def offline_session_def unsorted_snapshots_def)
  from redshift [OF this] have r4:
    "get_redshift_cluster_size snapshot_session 0 ''acct'' ''us-east-1'' ''wh-1'' =
     Inr \<lparr>account_id = ''acct'', region_name = ''us-east-1'', resource_key = ''wh-1'',
          size_bytes = PyFloat (5 / 2 * 1024 ^ 2)\<rparr>"
    by (simp add: h)
  have "efs_describe_file_systems storage_session ''us-east-1'' ''fs-1'' =
          Inr \<lparr>FileSystems = [\<lparr>SizeInBytes = \<lparr>Value = 6144\<rparr>\<rparr>]\<rparr> \<and>
        FileSystems \<lparr>FileSystems = [\<lparr>SizeInBytes = \<lparr>Value = 6144\<rparr>\<rparr>]\<rparr> =
          \<lparr>SizeInBytes = \<lparr>Value = 6144\<rparr>\<rparr> # []"
    by (simp add: storage_session_def offline_session_def)
  from efs [OF this] have r5:
    "get_efs_file_system_size storage_session ''acct'' ''us-east-1'' ''fs-1'' =
     Inr \<lparr>account_id = ''acct'', region_name = ''us-east-1'', resource_key = ''fs-1'',
          size_bytes = PyInt 6144\<rparr>"
    by simp
  have "dynamodb_describe_table storage_session ''us-east-1'' ''t-1'' =
          Inr \<lparr>Table = \<lparr>TableSizeBytes = 4096\<rparr>\<rparr>"
    by (simp add: storage_session_def offline_session_def)
  from ddb [OF this] have r6:
    "get_dynamodb_table_size storage_session ''acct'' ''us-east-1'' ''t-1'' =
     Inr \<lparr>account_id = ''acct'', region_name = ''us-east-1'', resource_key = ''t-1'',
          size_bytes = PyInt 4096\<rparr>"
    by simp
  have "bucket_validation bucket_session ''us-east-1'' ''b1'' = Inr () \<and>
      cloudwatch_list_metrics bucket_session ''us-east-1'' (bucket_metrics_request ''b1'') =
        map Inr bucket_pages \<and>
      (\<forall>m \<in> set (concat (map Metrics bucket_pages)). storage_type_values m \<noteq> []) \<and>
      (\<forall>m \<in> set (concat (map Metrics bucket_pages)).
         cloudwatch_get_metric_statistics bucket_session ''us-east-1''
           (bucket_statistics_request (Dimensions m) (0 - days 2) 0 (days 2)) =
           Inr (bucket_answer (Dimensions m))) \<and>
      (\<forall>m \<in> set (concat (map Metrics bucket_pages)).
         hd (storage_type_values m) \<in> set backup_storage_types \<longrightarrow>
         Datapoints (bucket_answer (Dimensions m)) \<noteq> [])"
  proof (intro conjI)
    show "bucket_validation bucket_session ''us-east-1'' ''b1'' = Inr ()"
      by (rule bucket_session_valid)
    show "cloudwatch_list_metrics bucket_session ''us-east-1'' (bucket_metrics_request ''b1'') =
        map Inr bucket_pages"
      by (simp add: bucket_session_def offline_session_def bucket_listing_request_def
            bucket_metrics_request_def)
    show "\<forall>m \<in> set (concat (map Metrics bucket_pages)). storage_type_values m \<noteq> []"
      by (simp add: bucket_listing bucket_storage_type_values)
    show "\<forall>m \<in> set (concat (map Metrics bucket_pages)).
         cloudwatch_get_metric_statistics bucket_session ''us-east-1''
           (bucket_statistics_request (Dimensions m) (0 - days 2) 0 (days 2)) =
           Inr (bucket_answer (Dimensions m))"
      by (simp add: bucket_session_def offline_session_def bucket_statistics_request_def
            bucket_average_request_def period_2_days)
    show "\<forall>m \<in> set (concat (map Metrics bucket_pages)).
         hd (storage_type_values m) \<in> set backup_storage_types \<longrightarrow>
         Datapoints (bucket_answer (Dimensions m)) \<noteq> []"
      by (simp add: bucket_listing bucket_storage_type_values bucket_answers allowed_classes)
  qed
  from bucket [OF this] have r7:
    "snd (get_bucket_size bucket_session 0 ''acct'' ''us-east-1'' ''b1'') =
     Inr [\<lparr>account_id = ''acct'', region_name = ''us-east-1'',
           resource_key = ''b1::StandardStorage'', size_bytes = PyFloat (2001 / 2)\<rparr>,
          \<lparr>account_id = ''acct'', region_name = ''us-east-1'',
           resource_key = ''b1::StandardIAStorage'', size_bytes = PyFloat 2048\<rparr>]"
    by (simp add: bucket_listing bucket_storage_type_values bucket_answers allowed_classes)
  have m: "hd (sorted_reverse Timestamp aurora_datapoints) =
      \<lparr>Timestamp = 300, Maximum = 15 / 2, Average = 0\<rparr>"
    by (simp add: sorted_reverse_def aurora_datapoints_def)
  have t: "py_int (15 / 2) = 7"
    by code_simp
  have "rds_describe_db_clusters aurora_session ''us-east-1'' ''db-1'' =
          Inr \<lparr>DBClusters = [\<lparr>Engine = ''aurora-postgresql'', cluster_AllocatedStorage = 1\<rparr>]\<rparr> \<and>
        DBClusters \<lparr>DBClusters = [\<lparr>Engine = ''aurora-postgresql'', cluster_AllocatedStorage = 1\<rparr>]\<rparr> =
          \<lparr>Engine = ''aurora-postgresql'', cluster_AllocatedStorage = 1\<rparr> # [] \<and>
        startswith (Engine \<lparr>Engine = ''aurora-postgresql'', cluster_AllocatedStorage = 1\<rparr>)
          ''aurora-'' \<and>
        cloudwatch_get_metric_statistics aurora_session ''us-east-1''
          \<lparr>ms_Namespace = ''AWS/RDS'', ms_MetricName = ''VolumeBytesUsed'',
           ms_Dimensions = [\<lparr>dim_Name = ''DBClusterIdentifier'', dim_Value = ''db-1''\<rparr>],
           ms_StartTime = 0 - 30 * 60 * 1000000, ms_EndTime = 0,
           ms_Statistics = [''Maximum''], ms_Period = 30 * 60, ms_Unit = ''Bytes''\<rparr> =
          Inr \<lparr>Datapoints = aurora_datapoints\<rparr> \<and>
        Datapoints \<lparr>Datapoints = aurora_datapoints\<rparr> \<noteq> []"
    by (simp add: aurora_session_def offline_session_def startswith_def aurora_datapoints_def)
  from aurora [OF this] have r8:
    "get_rds_cluster_size aurora_session 0 ''acct'' ''us-east-1'' ''db-1'' =
     Inr \<lparr>account_id = ''acct'', region_name = ''us-east-1'', resource_key = ''db-1'',
          size_bytes = PyInt 7\<rparr>"
    by (simp add: m t)
  from r1 r2 r3 r4 r5 r6 r7 r8 show ?thesis
    by (intro conjI)
qed

text \<open>
  An aurora cluster whose most recent datapoint has the maximum \<open>7.5\<close>: the record
  carries \<open>7\<close>, not the value of the field.
\<close>

theorem aurora_maximum_unchanged_counterexample:
  "hd (sorted_reverse Timestamp aurora_datapoints) =
     \<lparr>Timestamp = 300, Maximum = 15 / 2, Average = 0\<rparr> \<and>
   get_rds_cluster_size aurora_session 0 ''acct'' ''us-east-1'' ''db-1'' =
     Inr \<lparr>account_id = ''acct'', region_name = ''us-east-1'', resource_key = ''db-1'',
          size_bytes = PyInt 7\<rparr> \<and>
   (of_int 7 :: rat) \<noteq> 15 / 2"
proof -
  have m: "hd (sorted_reverse Timestamp aurora_datapoints) =
      \<lparr>Timestamp = 300, Maximum = 15 / 2, Average = 0\<rparr>"
    by (simp add: sorted_reverse_def aurora_datapoints_def)
  have t: "py_int (15 / 2) = 7"
    by code_simp
  have c: "rds_describe_db_clusters aurora_session ''us-east-1'' ''db-1'' =
      Inr \<lparr>DBClusters = [\<lparr>Engine = ''aurora-postgresql'', cluster_AllocatedStorage = 1\<rparr>]\<rparr>"
    by (simp add: aurora_session_def offline_session_def)
  have l: "DBClusters \<lparr>DBClusters = [\<lparr>Engine = ''aurora-postgresql'', cluster_AllocatedStorage = 1\<rparr>]\<rparr> =
      \<lparr>Engine = ''aurora-postgresql'', cluster_AllocatedStorage = 1\<rparr> # []"
    by simp
  have e: "startswith (Engine \<lparr>Engine = ''aurora-postgresql'', cluster_AllocatedStorage = 1\<rparr>)
      ''aurora-''"
    by (simp add: startswith_def)
  have q: "cloudwatch_get_metric_statistics aurora_session ''us-east-1''
          \<lparr>ms_Namespace = ''AWS/RDS'', ms_MetricName = ''VolumeBytesUsed'',
           ms_Dimensions = [\<lparr>dim_Name = ''DBClusterIdentifier'', dim_Value = ''db-1''\<rparr>],
           ms_StartTime = 0 - 30 * 60 * 1000000, ms_EndTime = 0,
           ms_Statistics = [''Maximum''], ms_Period = 30 * 60, ms_Unit = ''Bytes''\<rparr> =
          Inr \<lparr>Datapoints = aurora_datapoints\<rparr>"
    by (simp add: aurora_session_def offline_session_def)
  have ne: "aurora_datapoints \<noteq> []"
    by (simp add: aurora_datapoints_def)
  have r: "get_rds_cluster_size aurora_session 0 ''acct'' ''us-east-1'' ''db-1'' =
     Inr \<lparr>account_id = ''acct'', region_name = ''us-east-1'', resource_key = ''db-1'',
          size_bytes = PyInt 7\<rparr>"
    using rds_cluster_aurora_eq [OF c l e q, of "''acct''"] ne by (simp add: m t)
  have d: "(of_int 7 :: rat) \<noteq> 15 / 2"
    by simp
  from m r d show ?thesis by (intro conjI)
qed

end
